theory Spec2Isabelle
  imports Complex_Main "HOL-Library.Stream"
begin

text \<open>
  A model of the quantum simulation library of the repository: the processor
  \<open>QuantumProcessor\<close> and the teleportation corrections of \<open>QuantumAlgorithms\<close>
  (\<open>lib/quantum/core.ts\<close>), the optimizer \<open>QuantumOptimizer\<close>
  (\<open>lib/quantum/optimization.ts\<close>) and the trainer \<open>QuantumAI\<close> (\<open>lib/ai/gemini.ts\<close>).
  A method is a function of the object it is called on and returns the object it
  leaves; a method that draws random numbers also takes and returns the random source.
  The constructors are \<open>newQuantumProcessor\<close> and \<open>newQuantumAI\<close>. Names are those of the
  source, except for a few that are taken: the field \<open>type\<close> is \<open>gtype\<close> for a gate and
  \<open>mtype\<close> for a model, the gate kinds \<open>'H'\<close>, \<open>'X'\<close>, ... are \<open>GH\<close>, \<open>GX\<close>, ..., the
  fields \<open>state\<close> and \<open>probability\<close> of a result are \<open>result_state\<close> and
  \<open>result_probability\<close>, the field \<open>qubits\<close> of a layer is \<open>layer_qubits\<close>, and the method
  \<open>measure\<close> is \<open>measureProcessor\<close>.
\<close>

section \<open>Numbers of the source language\<close>

text \<open>
  A TypeScript \<open>number\<close> is modelled as a real number or one of the three special
  values of the arithmetic: \<open>NaN\<close>, \<open>Infinity\<close> and \<open>-Infinity\<close>. Rounding, overflow,
  underflow and the sign of zero are not modelled: a finite value is an exact real, no
  operation on finite values leaves the finite values except a division by zero, and
  a division by zero takes its sign from the numerator alone. A statement below about a
  finite result is therefore one about exact arithmetic; the source computes it up to
  the rounding of double precision, and only as long as no intermediate value
  overflows or underflows.
\<close>

datatype number = Num real | NaN | PosInf | NegInf

fun nneg :: "number \<Rightarrow> number" where
  "nneg (Num a) = Num (- a)"
| "nneg NaN = NaN"
| "nneg PosInf = NegInf"
| "nneg NegInf = PosInf"

fun nadd :: "number \<Rightarrow> number \<Rightarrow> number" where
  "nadd (Num a) (Num b) = Num (a + b)"
| "nadd NaN _ = NaN"
| "nadd _ NaN = NaN"
| "nadd PosInf NegInf = NaN"
| "nadd NegInf PosInf = NaN"
| "nadd PosInf _ = PosInf"
| "nadd _ PosInf = PosInf"
| "nadd NegInf _ = NegInf"
| "nadd _ NegInf = NegInf"

definition nsub :: "number \<Rightarrow> number \<Rightarrow> number" where
  "nsub a b = nadd a (nneg b)"

text \<open>The infinity of the sign of a nonzero real.\<close>

definition inf_of :: "real \<Rightarrow> number" where
  "inf_of a = (if a = 0 then NaN else if 0 < a then PosInf else NegInf)"

fun nmul :: "number \<Rightarrow> number \<Rightarrow> number" where
  "nmul (Num a) (Num b) = Num (a * b)"
| "nmul NaN _ = NaN"
| "nmul _ NaN = NaN"
| "nmul (Num a) PosInf = inf_of a"
| "nmul (Num a) NegInf = inf_of (- a)"
| "nmul PosInf (Num b) = inf_of b"
| "nmul NegInf (Num b) = inf_of (- b)"
| "nmul PosInf PosInf = PosInf"
| "nmul PosInf NegInf = NegInf"
| "nmul NegInf PosInf = NegInf"
| "nmul NegInf NegInf = PosInf"

fun ndiv :: "number \<Rightarrow> number \<Rightarrow> number" where
  "ndiv (Num a) (Num b) = (if b = 0 then inf_of a else Num (a / b))"
| "ndiv NaN _ = NaN"
| "ndiv _ NaN = NaN"
| "ndiv (Num a) PosInf = Num 0"
| "ndiv (Num a) NegInf = Num 0"
| "ndiv PosInf (Num b) = (if 0 \<le> b then PosInf else NegInf)"
| "ndiv NegInf (Num b) = (if 0 \<le> b then NegInf else PosInf)"
| "ndiv PosInf PosInf = NaN"
| "ndiv PosInf NegInf = NaN"
| "ndiv NegInf PosInf = NaN"
| "ndiv NegInf NegInf = NaN"

text \<open>\<open>Math.sqrt\<close>, \<open>Math.abs\<close>, \<open>Math.min\<close>, \<open>Math.exp\<close>, \<open>Math.sin\<close>, \<open>Math.cos\<close>
  and \<open>Math.pow(x, 2)\<close>.\<close>

fun nsqrt :: "number \<Rightarrow> number" where
  "nsqrt (Num a) = (if a < 0 then NaN else Num (sqrt a))"
| "nsqrt NaN = NaN"
| "nsqrt PosInf = PosInf"
| "nsqrt NegInf = NaN"

fun nabs :: "number \<Rightarrow> number" where
  "nabs (Num a) = Num \<bar>a\<bar>"
| "nabs NaN = NaN"
| "nabs PosInf = PosInf"
| "nabs NegInf = PosInf"

fun nmin :: "number \<Rightarrow> number \<Rightarrow> number" where
  "nmin (Num a) (Num b) = Num (min a b)"
| "nmin NaN _ = NaN"
| "nmin _ NaN = NaN"
| "nmin NegInf _ = NegInf"
| "nmin _ NegInf = NegInf"
| "nmin PosInf b = b"
| "nmin a PosInf = a"

fun nexp :: "number \<Rightarrow> number" where
  "nexp (Num a) = Num (exp a)"
| "nexp NaN = NaN"
| "nexp PosInf = PosInf"
| "nexp NegInf = Num 0"

fun nsin :: "number \<Rightarrow> number" where
  "nsin (Num a) = Num (sin a)"
| "nsin _ = NaN"

fun ncos :: "number \<Rightarrow> number" where
  "ncos (Num a) = Num (cos a)"
| "ncos _ = NaN"

definition npow2 :: "number \<Rightarrow> number" where
  "npow2 a = nmul a a"

text \<open>The comparison \<open>a < b\<close>: false as soon as one side is \<open>NaN\<close>.\<close>

fun nlt :: "number \<Rightarrow> number \<Rightarrow> bool" where
  "nlt (Num a) (Num b) = (a < b)"
| "nlt NaN _ = False"
| "nlt _ NaN = False"
| "nlt NegInf NegInf = False"
| "nlt NegInf _ = True"
| "nlt _ NegInf = False"
| "nlt PosInf _ = False"
| "nlt _ PosInf = True"

text \<open>Strict equality \<open>a === b\<close> of two numbers: \<open>NaN\<close> equals nothing.\<close>

definition nseq :: "number \<Rightarrow> number \<Rightarrow> bool" where
  "nseq a b = (a \<noteq> NaN \<and> a = b)"

text \<open>The values the specification calls "within [0,1]".\<close>

fun in01 :: "number \<Rightarrow> bool" where
  "in01 (Num a) = (0 \<le> a \<and> a \<le> 1)"
| "in01 _ = False"

fun is_finite :: "number \<Rightarrow> bool" where
  "is_finite (Num a) = True"
| "is_finite _ = False"

section \<open>Shared types (types/quantum.ts)\<close>

record Complex =
  creal :: number
  cimag :: number

record QuantumState =
  qubits :: "number list"
  superposition :: bool
  entanglement :: number
  coherence :: number

datatype GateType = GH | GX | GY | GZ | GCNOT | GRX | GRY | GRZ | GT | GS

text \<open>A qubit index is a natural number; \<open>control\<close> and \<open>angle\<close> are optional.\<close>

record QuantumGate =
  gtype :: GateType
  target :: nat
  control :: "nat option"
  angle :: "number option"

record ProcessingResult =
  result_state :: QuantumState
  result_probability :: number
  confidence :: number
  executionTime :: number

section \<open>The ambient random source\<close>

text \<open>
  \<open>Math.random()\<close> is a read of a hidden, shared sequence of draws. The sequence is
  an explicit stream here: a function that draws takes the stream and returns the rest.
\<close>

type_synonym rng = "real stream"

definition random :: "rng \<Rightarrow> number \<times> rng" where
  "random r = (Num (shd r), stl r)"

section \<open>The processor (lib/quantum/core.ts)\<close>

datatype error = InvalidTargetQubit nat | InvalidControlQubit nat | TypeError

record WaveFunctionCollapse =
  amplitude :: number
  phase :: number
  probability :: number

record DecoherenceModel =
  T1 :: number
  T2 :: number
  environmentalNoise :: number

record QuantumProcessor =
  state :: QuantumState
  decoherenceModel :: DecoherenceModel

definition planckConstant :: number where
  "planckConstant = Num (662607015 / 10 ^ 42)"

definition boltzmannConstant :: number where
  "boltzmannConstant = Num (1380649 / 10 ^ 29)"

definition temperature :: number where
  "temperature = Num (15 / 1000)"

text \<open>Reading \<open>xs[i]\<close>: \<open>undefined\<close> (here \<open>None\<close>) outside the array.\<close>

definition elemAt :: "'a list \<Rightarrow> nat \<Rightarrow> 'a option" where
  "elemAt xs i = (if i < length xs then Some (xs ! i) else None)"

definition calculateWaveFunction ::
  "QuantumProcessor \<Rightarrow> nat \<Rightarrow> rng \<Rightarrow> WaveFunctionCollapse \<times> rng" where
  "calculateWaveFunction p qubit r =
     (let amplitude = nsqrt (nsub (Num 1) (npow2 (coherence (state p))));
          (u, r1) = random r;
          phase = nmul (nmul (Num 2) (Num pi)) u;
          probability = npow2 amplitude
      in (\<lparr>amplitude = amplitude, phase = phase, probability = probability\<rparr>, r1))"

definition applyDecoherenceEffects :: "QuantumProcessor \<Rightarrow> QuantumProcessor" where
  "applyDecoherenceEffects p =
     (let timeStep = Num (1 / 10 ^ 9);
          c1 = nmul (coherence (state p))
                 (nexp (ndiv (nneg timeStep) (T2 (decoherenceModel p))));
          thermalEnergy = nmul boltzmannConstant temperature;
          quantumEnergy = nmul planckConstant (Num (10 ^ 9));
          thermalNoise = nexp (ndiv (nneg quantumEnergy) thermalEnergy);
          c2 = nmul c1 (nsub (Num 1) thermalNoise)
      in p\<lparr>state := (state p)\<lparr>coherence := c2\<rparr>\<rparr>)"

text \<open>The \<open>map\<close> of \<open>calibrateQuantumRegisters\<close>: one wave function, hence one draw, for
  each qubit in order. The live state is only assigned once the map is done.\<close>

fun calibrateMap ::
  "QuantumProcessor \<Rightarrow> nat \<Rightarrow> number list \<Rightarrow> rng \<Rightarrow> number list \<times> rng" where
  "calibrateMap p idx [] r = ([], r)"
| "calibrateMap p idx (qubit # rest) r =
     (let (w, r1) = calculateWaveFunction p idx r;
          v = nmul qubit
                (nsub (Num 1) (nmul (environmentalNoise (decoherenceModel p)) (probability w)));
          (vs, r2) = calibrateMap p (Suc idx) rest r1
      in (v # vs, r2))"

definition calibrateQuantumRegisters ::
  "QuantumProcessor \<Rightarrow> rng \<Rightarrow> QuantumProcessor \<times> rng" where
  "calibrateQuantumRegisters p r =
     (let (qs, r1) = calibrateMap p 0 (qubits (state p)) r
      in (p\<lparr>state := (state p)\<lparr>qubits := qs\<rparr>\<rparr>, r1))"

text \<open>\<open>applySurfaceCode\<close> is only called with \<open>startIdx + 2\<close> inside the array (the loop
  guard of \<open>initializeErrorCorrection\<close>), so both writes are in range.\<close>

definition applySurfaceCode :: "nat \<Rightarrow> QuantumProcessor \<Rightarrow> QuantumProcessor" where
  "applySurfaceCode startIdx p =
     (let qs = qubits (state p);
          ancillaQubit = qs ! startIdx;
          qs1 = qs[startIdx + 1 := ancillaQubit];
          qs2 = qs1[startIdx + 2 := ancillaQubit]
      in p\<lparr>state := (state p)\<lparr>qubits := qs2\<rparr>\<rparr>)"

function errorCorrectionLoop :: "nat \<Rightarrow> QuantumProcessor \<Rightarrow> QuantumProcessor" where
  "errorCorrectionLoop i p =
     (if i + 2 < length (qubits (state p))
      then errorCorrectionLoop (i + 3) (applySurfaceCode i p)
      else p)"
  by pat_completeness auto
termination
  by (relation "measure (\<lambda>(i, p). length (qubits (state p)) - i)")
     (auto simp: applySurfaceCode_def Let_def)

declare errorCorrectionLoop.simps [simp del]

definition initializeErrorCorrection :: "QuantumProcessor \<Rightarrow> QuantumProcessor" where
  "initializeErrorCorrection p =
     (if 3 \<le> length (qubits (state p)) then errorCorrectionLoop 0 p else p)"

definition initializeQuantumSystem ::
  "QuantumProcessor \<Rightarrow> rng \<Rightarrow> QuantumProcessor \<times> rng" where
  "initializeQuantumSystem p r =
     (let p1 = applyDecoherenceEffects p;
          (p2, r2) = calibrateQuantumRegisters p1 r
      in (initializeErrorCorrection p2, r2))"

definition newQuantumProcessor :: "nat \<Rightarrow> rng \<Rightarrow> QuantumProcessor \<times> rng" where
  "newQuantumProcessor n r =
     initializeQuantumSystem
       \<lparr>state = \<lparr>qubits = replicate n (Num 0), superposition = False,
                 entanglement = Num 0, coherence = Num 1\<rparr>,
        decoherenceModel = \<lparr>T1 = Num (50 / 10 ^ 6), T2 = Num (70 / 10 ^ 6),
                            environmentalNoise = Num (1 / 1000)\<rparr>\<rparr> r"

definition validateGateOperation :: "QuantumGate \<Rightarrow> QuantumProcessor \<Rightarrow> error option" where
  "validateGateOperation gate p =
     (if target gate \<ge> length (qubits (state p)) then Some (InvalidTargetQubit (target gate))
      else case control gate of
             None \<Rightarrow> None
           | Some c \<Rightarrow>
               if c \<ge> length (qubits (state p)) then Some (InvalidControlQubit c) else None)"

definition hadamardGate :: "nat \<Rightarrow> QuantumProcessor \<Rightarrow> rng \<Rightarrow> QuantumProcessor \<times> rng" where
  "hadamardGate tgt p r =
     (let (w, r1) = calculateWaveFunction p tgt r;
          c1 = nmul (coherence (state p))
                 (nsub (Num 1) (nmul (amplitude w) (nsin (phase w))));
          (u, r2) = random r1;
          fluctuation = nmul u (environmentalNoise (decoherenceModel p));
          c2 = nmul c1 (nsub (Num 1) fluctuation)
      in (p\<lparr>state := (state p)\<lparr>superposition := True, coherence := c2\<rparr>\<rparr>, r2))"

text \<open>\<open>pauliXGate\<close> runs after \<open>validateGateOperation\<close>, so the write is in range; a read
  outside the array would be \<open>undefined\<close>, which is not \<open>=== 0\<close>.\<close>

definition pauliXGate :: "nat \<Rightarrow> QuantumProcessor \<Rightarrow> rng \<Rightarrow> QuantumProcessor \<times> rng" where
  "pauliXGate tgt p r =
     (let previousState = elemAt (qubits (state p)) tgt;
          (w, r1) = calculateWaveFunction p tgt r;
          noise = environmentalNoise (decoherenceModel p);
          v = (if (case previousState of Some q \<Rightarrow> nseq q (Num 0) | None \<Rightarrow> False)
               then nsub (Num 1) (nmul (probability w) noise)
               else nadd (Num 0) (nmul (probability w) noise))
      in (p\<lparr>state := (state p)\<lparr>qubits := (qubits (state p))[tgt := v]\<rparr>\<rparr>, r1))"

text \<open>\<open>updateEntanglementMetric\<close> is only called from \<open>cnotGate\<close>, after
  \<open>validateGateOperation\<close>, so both indices are inside the array.\<close>

definition updateEntanglementMetric ::
  "nat \<Rightarrow> nat \<Rightarrow> QuantumProcessor \<Rightarrow> QuantumProcessor" where
  "updateEntanglementMetric ctl tgt p =
     (let qs = qubits (state p);
          entanglementStrength =
            nabs (nsub (nmul (qs ! ctl) (qs ! tgt))
                       (nmul (nsub (Num 1) (qs ! ctl)) (nsub (Num 1) (qs ! tgt))))
      in p\<lparr>state := (state p)\<lparr>entanglement :=
             nmin (Num 1) (nadd (entanglement (state p))
                                (nmul entanglementStrength (Num (1 / 10))))\<rparr>\<rparr>)"

definition cnotGate ::
  "nat \<Rightarrow> nat option \<Rightarrow> QuantumProcessor \<Rightarrow> rng \<Rightarrow> QuantumProcessor \<times> rng" where
  "cnotGate tgt ctl p r =
     (case ctl of
        None \<Rightarrow> (p, r)
      | Some c \<Rightarrow>
          (let controlState = elemAt (qubits (state p)) c;
               (p1, r1) = (if (case controlState of Some q \<Rightarrow> nseq q (Num 1) | None \<Rightarrow> False)
                           then pauliXGate tgt p r else (p, r))
           in (updateEntanglementMetric c tgt p1, r1)))"

text \<open>The inner and the outer loop of \<open>updateSystemEntanglement\<close>, over the pairs
  \<open>i < j\<close> in the order of the source.\<close>

definition pairTerm :: "number \<Rightarrow> number \<Rightarrow> number" where
  "pairTerm qi qj =
     nabs (nsub (nmul qi qj)
                (nsqrt (nmul (nsub (Num 1) (npow2 qi)) (nsub (Num 1) (npow2 qj)))))"

definition updateSystemEntanglement :: "QuantumProcessor \<Rightarrow> QuantumProcessor" where
  "updateSystemEntanglement p =
     (let qs = qubits (state p);
          totalQubits = length qs;
          globalEntanglement =
            fold (\<lambda>i acc. fold (\<lambda>j acc. nadd acc (pairTerm (qs ! i) (qs ! j)))
                              [i + 1 ..< totalQubits] acc)
                 [0 ..< totalQubits - 1] (Num 0)
      in p\<lparr>state := (state p)\<lparr>entanglement :=
             nmin (Num 1)
               (ndiv globalEntanglement
                     (Num (real totalQubits * (real totalQubits - 1) / 2)))\<rparr>\<rparr>)"

text \<open>The dispatch table: only \<open>H\<close>, \<open>X\<close> and \<open>CNOT\<close> have an entry.\<close>

definition gateOperations ::
  "GateType \<rightharpoonup> (nat \<Rightarrow> nat option \<Rightarrow> QuantumProcessor \<Rightarrow> rng \<Rightarrow> QuantumProcessor \<times> rng)" where
  "gateOperations =
     [GH \<mapsto> (\<lambda>tgt ctl. hadamardGate tgt),
      GX \<mapsto> (\<lambda>tgt ctl. pauliXGate tgt),
      GCNOT \<mapsto> cnotGate]"

text \<open>\<open>applyGate\<close> returns the error it throws (if any), the processor after the call and
  the rest of the random stream.\<close>

definition applyGate ::
  "QuantumGate \<Rightarrow> QuantumProcessor \<Rightarrow> rng \<Rightarrow> error option \<times> QuantumProcessor \<times> rng" where
  "applyGate gate p r =
     (case validateGateOperation gate p of
        Some e \<Rightarrow> (Some e, p, r)
      | None \<Rightarrow>
          (case gateOperations (gtype gate) of
             Some operation \<Rightarrow>
               (let (p1, r1) = operation (target gate) (control gate) p r;
                    p2 = applyDecoherenceEffects p1;
                    p3 = updateSystemEntanglement p2
                in (None, p3, r1))
           | None \<Rightarrow> (None, p, r)))"

text \<open>The \<open>map\<close> of \<open>measure\<close>: a wave function (one draw) and a second draw for each
  qubit, in order.\<close>

fun measureMap ::
  "QuantumProcessor \<Rightarrow> nat \<Rightarrow> number list \<Rightarrow> rng \<Rightarrow> number list \<times> rng" where
  "measureMap p idx [] r = ([], r)"
| "measureMap p idx (qubit # rest) r =
     (let (w, r1) = calculateWaveFunction p idx r;
          (u, r2) = random r1;
          v = (if nlt u (probability w) then Num 1 else qubit);
          (vs, r3) = measureMap p (Suc idx) rest r2
      in (v # vs, r3))"

fun energyReduce ::
  "QuantumProcessor \<Rightarrow> nat \<Rightarrow> number list \<Rightarrow> number \<Rightarrow> rng \<Rightarrow> number \<times> rng" where
  "energyReduce p idx [] energy r = (energy, r)"
| "energyReduce p idx (qubit # rest) energy r =
     (let (w, r1) = calculateWaveFunction p idx r
      in energyReduce p (Suc idx) rest
           (nadd energy (nmul (nmul (amplitude w) (ncos (phase w))) planckConstant)) r1)"

definition calculateSystemEnergy :: "QuantumProcessor \<Rightarrow> rng \<Rightarrow> number \<times> rng" where
  "calculateSystemEnergy p r = energyReduce p 0 (qubits (state p)) (Num 0) r"

definition calculateMeasurementFidelity :: "QuantumProcessor \<Rightarrow> number" where
  "calculateMeasurementFidelity p =
     (let environmentalDecoherence = nsub (Num 1) (environmentalNoise (decoherenceModel p));
          thermalNoise = ndiv (nmul temperature boltzmannConstant)
                              (nmul planckConstant (Num (10 ^ 9)))
      in nmul (nmul (coherence (state p)) environmentalDecoherence)
              (nsub (Num 1) thermalNoise))"

definition calculateExecutionTime :: "rng \<Rightarrow> number \<times> rng" where
  "calculateExecutionTime r =
     (let gateOperationTime = Num (20 / 10 ^ 9);
          readoutTime = Num (100 / 10 ^ 9);
          (u, r1) = random r;
          processingOverhead = nmul u (Num (50 / 10 ^ 9))
      in (nmul (nadd (nadd gateOperationTime readoutTime) processingOverhead) (Num (10 ^ 9)),
          r1))"

text \<open>\<open>measure\<close> returns its result, the processor after the call (only the coherence
  has changed) and the rest of the random stream.\<close>

definition measureProcessor ::
  "QuantumProcessor \<Rightarrow> rng \<Rightarrow> ProcessingResult \<times> QuantumProcessor \<times> rng" where
  "measureProcessor p r =
     (let p1 = applyDecoherenceEffects p;
          (measurementResults, r1) = measureMap p1 0 (qubits (state p1)) r;
          (systemEnergy, r2) = calculateSystemEnergy p1 r1;
          measurementFidelity = calculateMeasurementFidelity p1;
          (t, r3) = calculateExecutionTime r2
      in (\<lparr>result_state = (state p1)\<lparr>qubits := measurementResults\<rparr>,
           result_probability = measurementFidelity,
           confidence = coherence (state p1),
           executionTime = t\<rparr>, p1, r3))"

section \<open>The algorithm library: teleportation corrections (lib/quantum/core.ts)\<close>

definition pauliX :: "Complex \<Rightarrow> Complex" where
  "pauliX qubit = \<lparr>creal = cimag qubit, cimag = creal qubit\<rparr>"

definition pauliZ :: "Complex \<Rightarrow> Complex" where
  "pauliZ qubit = \<lparr>creal = creal qubit, cimag = nneg (cimag qubit)\<rparr>"

text \<open>The two measurement outcomes are numbers; a branch is taken when the number is
  truthy, that is, not zero.\<close>

definition applyTeleportationCorrections :: "Complex \<Rightarrow> nat \<times> nat \<Rightarrow> Complex" where
  "applyTeleportationCorrections qubit measurements =
     (let corrected = qubit;
          corrected = (if snd measurements \<noteq> 0 then pauliX corrected else corrected);
          corrected = (if fst measurements \<noteq> 0 then pauliZ corrected else corrected)
      in corrected)"

section \<open>The hybrid optimizer (lib/quantum/optimization.ts)\<close>



definition LEARNING_RATE :: number where
  "LEARNING_RATE = Num (1 / 100)"


text \<open>The factor \<open>idx % 2 ? 1 : -1\<close>.\<close>

definition parity_sign :: "nat \<Rightarrow> number" where
  "parity_sign idx = (if idx mod 2 \<noteq> 0 then Num 1 else Num (- 1))"






definition regularizeQuantumFisher :: "Complex list list \<Rightarrow> Complex list list" where
  "regularizeQuantumFisher fisher =
     map (\<lambda>row. map (\<lambda>element. \<lparr>creal = nadd (creal element) (Num (1 / 10 ^ 5)),
                                   cimag = cimag element\<rparr>) row) fisher"

text \<open>\<open>matrix[i][i]\<close> outside row \<open>i\<close> is \<open>undefined\<close>, and reading its \<open>real\<close> throws a
  \<open>TypeError\<close>. Each diagonal slot is assigned a fresh object, so the zero object
  that fills a row is never changed. \<open>inverseStep\<close> is the body of the loop.\<close>

definition inverseStep ::
  "Complex list list \<Rightarrow> nat \<Rightarrow> error + Complex list list \<Rightarrow> error + Complex list list" where
  "inverseStep matrix i acc =
     (case acc of
        Inl e \<Rightarrow> Inl e
      | Inr res \<Rightarrow>
          (case elemAt (matrix ! i) i of
             None \<Rightarrow> Inl TypeError
           | Some d \<Rightarrow>
               Inr (res[i := (res ! i)[i := \<lparr>creal = ndiv (Num 1) (creal d),
                                             cimag = Num 0\<rparr>]])))"

definition inverseMatrix :: "Complex list list \<Rightarrow> error + Complex list list" where
  "inverseMatrix matrix =
     (let n = length matrix;
          result = replicate n (replicate n \<lparr>creal = Num 0, cimag = Num 0\<rparr>)
      in fold (inverseStep matrix) [0 ..< n] (Inr result))"

text \<open>The inner loop of \<open>quantumNaturalGradient\<close> for parameter \<open>i\<close>: \<open>inverse[i][j]\<close> is
  read for every \<open>j\<close> below the length of the gradient, and a missing row or entry
  throws.\<close>

definition naturalStep ::
  "Complex list list \<Rightarrow> nat \<Rightarrow> number list \<Rightarrow> nat \<Rightarrow> error + number \<Rightarrow> error + number" where
  "naturalStep inverseM i gradient j acc =
     (case acc of
        Inl e \<Rightarrow> Inl e
      | Inr update \<Rightarrow>
          (case elemAt inverseM i of
             None \<Rightarrow> Inl TypeError
           | Some row \<Rightarrow>
               (case elemAt row j of
                  None \<Rightarrow> Inl TypeError
                | Some e \<Rightarrow> Inr (nadd update (nmul (creal e) (gradient ! j))))))"

definition naturalUpdate :: "Complex list list \<Rightarrow> nat \<Rightarrow> number list \<Rightarrow> error + number" where
  "naturalUpdate inverseM i gradient =
     fold (naturalStep inverseM i gradient) [0 ..< length gradient] (Inr (Num 0))"

text \<open>A \<open>map\<close> whose callback may throw: the first error ends it.\<close>

fun mapE :: "('a \<Rightarrow> error + 'b) \<Rightarrow> 'a list \<Rightarrow> error + 'b list" where
  "mapE f [] = Inr []"
| "mapE f (x # xs) =
     (case f x of
        Inl e \<Rightarrow> Inl e
      | Inr y \<Rightarrow> (case mapE f xs of Inl e \<Rightarrow> Inl e | Inr ys \<Rightarrow> Inr (y # ys)))"

definition quantumNaturalGradient ::
  "number list \<Rightarrow> Complex list list \<Rightarrow> number list \<Rightarrow> error + number list" where
  "quantumNaturalGradient parameters quantumFisher gradient =
     (let regularized = regularizeQuantumFisher quantumFisher
      in case inverseMatrix regularized of
           Inl e \<Rightarrow> Inl e
         | Inr inverseM \<Rightarrow>
             mapE (\<lambda>(i, param).
                     case naturalUpdate inverseM i gradient of
                       Inl e \<Rightarrow> Inl e
                     | Inr update \<Rightarrow> Inr (nsub param (nmul LEARNING_RATE update)))
                  (enumerate 0 parameters))"

text \<open>\<open>hamiltonian[i][j]\<close>: \<open>None\<close> when the row or the entry is missing, where the
  source throws a \<open>TypeError\<close>. \<open>evolveTerm\<close> is the callback of the \<open>reduce\<close>, on the
  pair of the index \<open>j\<close> and the component \<open>s\<close>.\<close>

definition entry :: "Complex list list \<Rightarrow> nat \<Rightarrow> nat \<Rightarrow> Complex option" where
  "entry m i j = (case elemAt m i of None \<Rightarrow> None | Some row \<Rightarrow> elemAt row j)"

definition evolveTerm ::
  "Complex list list \<Rightarrow> number \<Rightarrow> nat \<Rightarrow> nat \<times> Complex \<Rightarrow> error + Complex \<Rightarrow> error + Complex" where
  "evolveTerm hamiltonian dt i js acc =
     (case acc of
        Inl e \<Rightarrow> Inl e
      | Inr a \<Rightarrow>
          (case entry hamiltonian i (fst js) of
             None \<Rightarrow> Inl TypeError
           | Some h \<Rightarrow>
               Inr \<lparr>creal = nadd (creal a)
                              (nmul (nsub (nmul (creal h) (creal (snd js)))
                                          (nmul (cimag h) (cimag (snd js)))) dt),
                    cimag = nadd (cimag a)
                              (nmul (nadd (nmul (creal h) (cimag (snd js)))
                                          (nmul (cimag h) (creal (snd js)))) dt)\<rparr>))"

definition evolveRow ::
  "Complex list \<Rightarrow> Complex list list \<Rightarrow> number \<Rightarrow> nat \<Rightarrow> error + Complex" where
  "evolveRow st hamiltonian dt i =
     fold (evolveTerm hamiltonian dt i) (enumerate 0 st) (Inr \<lparr>creal = Num 0, cimag = Num 0\<rparr>)"

definition evolveState ::
  "Complex list \<Rightarrow> Complex list list \<Rightarrow> number \<Rightarrow> error + Complex list" where
  "evolveState st hamiltonian dt = mapE (evolveRow st hamiltonian dt) [0 ..< length st]"

text \<open>The sum of squares and the quotients are exact here. In the source a component
  beyond about \<open>1e154\<close> makes the sum \<open>Infinity\<close>, and one below about \<open>1e-162\<close> makes
  it zero; the quotients are then zero, infinite or \<open>NaN\<close>.\<close>

definition normalizeState :: "Complex list \<Rightarrow> Complex list" where
  "normalizeState st =
     (let norm = nsqrt (fold (\<lambda>s acc. nadd (nadd acc (nmul (creal s) (creal s)))
                                           (nmul (cimag s) (cimag s)))
                             st (Num 0))
      in map (\<lambda>s. \<lparr>creal = ndiv (creal s) norm, cimag = ndiv (cimag s) norm\<rparr>) st)"

text \<open>The \<open>for\<close> loop of \<open>imaginaryTimeEvolution\<close>, by the number of steps left.\<close>

fun evolutionLoop ::
  "Complex list list \<Rightarrow> number \<Rightarrow> nat \<Rightarrow> Complex list \<Rightarrow> error + Complex list" where
  "evolutionLoop hamiltonian dt 0 st = Inr st"
| "evolutionLoop hamiltonian dt (Suc k) st =
     (case evolveState st hamiltonian dt of
        Inl e \<Rightarrow> Inl e
      | Inr st1 \<Rightarrow> evolutionLoop hamiltonian dt k (normalizeState st1))"

definition imaginaryTimeEvolution ::
  "Complex list list \<Rightarrow> Complex list \<Rightarrow> number \<Rightarrow> nat \<Rightarrow> error + Complex list" where
  "imaginaryTimeEvolution hamiltonian initialState evolutionTime timeSteps =
     (let dt = ndiv evolutionTime (Num (real timeSteps))
      in evolutionLoop hamiltonian dt timeSteps initialState)"

section \<open>The quantum-neural trainer (lib/ai/gemini.ts)\<close>

datatype ModelType = Quantum | Classical | Hybrid

record AIModel =
  mtype :: ModelType
  parameters :: number
  layers :: nat
  accuracy :: number
  loss :: number

datatype EntanglementPattern = Linear | Full | Circular

record QuantumLayer =
  layer_qubits :: nat
  entanglementPattern :: EntanglementPattern
  gateSequence :: "string list"

record HybridOptimizer =
  classicalOptimizer :: string
  quantumOptimizer :: string
  learningRate :: number
  momentum :: number
  quantumNoiseThreshold :: number

text \<open>The trainer. Its \<open>architecture\<close> field is written by the constructor and read by
  no method, and is left out. The memory is keyed by the layer index \<open>idx\<close>, for the
  key \<open>layer_idx\<close> of the source; a register is the list of its slots.\<close>

record QuantumAI =
  model :: AIModel
  quantumLayers :: "QuantumLayer list"
  optimizer :: HybridOptimizer
  quantumMemory :: "nat \<rightharpoonup> number list"

definition maxQubits :: nat where
  "maxQubits = 50"

definition coherenceTime :: number where
  "coherenceTime = Num (100 / 10 ^ 6)"

fun nfloor :: "number \<Rightarrow> number" where
  "nfloor (Num a) = Num (of_int \<lfloor>a\<rfloor>)"
| "nfloor a = a"

text \<open>For one layer or more \<open>Math.exp(-layers / coherenceTime)\<close> rounds to zero in double
  precision and is a small positive real here, so the floor below can be one less than
  the source's. The field \<open>parameters\<close> that it fills is read by no property below.\<close>

definition calculateQuantumParameters :: "nat \<Rightarrow> number" where
  "calculateQuantumParameters n =
     nfloor (nmul (nmul (Num (real n)) (Num (real maxQubits)))
                  (nsub (Num 1) (nexp (ndiv (nneg (Num (real n))) coherenceTime))))"

definition calculateParameters :: "nat \<Rightarrow> number" where
  "calculateParameters n =
     (let baseParams = nmul (Num (real n)) (Num 1000);
          quantumParams = calculateQuantumParameters n
      in nadd baseParams quantumParams)"

definition baseGates :: "string list" where
  "baseGates = [''H'', ''CNOT'', ''RX'', ''RY'', ''RZ'']"

text \<open>\<open>baseGates[idx]\<close> for a number \<open>idx\<close>. A draw lies below 1, so the index is one of 0
  to 4; any other index reads \<open>undefined\<close>, which the switch of \<open>applyQuantumGate\<close>
  sends to its default branch like any label other than \<open>H\<close> and \<open>RX\<close>.\<close>

definition baseGateAt :: "number \<Rightarrow> string" where
  "baseGateAt idx =
     (case idx of
        Num k \<Rightarrow> if 0 \<le> k \<and> k < 5 then baseGates ! nat \<lfloor>k\<rfloor> else ''undefined''
      | _ \<Rightarrow> ''undefined'')"

text \<open>The product of the draw and the number of gates is exact here and rounded in the
  source, so for a draw just below a multiple of 1/5 the source can pick the next label.\<close>

fun drawGates :: "nat \<Rightarrow> rng \<Rightarrow> string list \<times> rng" where
  "drawGates 0 r = ([], r)"
| "drawGates (Suc n) r =
     (let (u, r1) = random r;
          idx = nfloor (nmul u (Num (real (length baseGates))));
          (gs, r2) = drawGates n r1
      in (baseGateAt idx # gs, r2))"

definition generateQuantumGateSequence :: "nat \<Rightarrow> rng \<Rightarrow> string list \<times> rng" where
  "generateQuantumGateSequence layer r =
     (let sequenceLength = nat \<lfloor>5 * log 2 (real layer + 2)\<rfloor>
      in drawGates sequenceLength r)"

text \<open>\<open>Array.from({length: layers}, ...)\<close>: the layers \<open>i\<close>, \<open>i + 1\<close>, ... in order.\<close>

fun initializeQuantumLayersFrom :: "nat \<Rightarrow> nat \<Rightarrow> rng \<Rightarrow> QuantumLayer list \<times> rng" where
  "initializeQuantumLayersFrom i 0 r = ([], r)"
| "initializeQuantumLayersFrom i (Suc n) r =
     (let (gs, r1) = generateQuantumGateSequence i r;
          layer = \<lparr>layer_qubits = min maxQubits (nat \<lfloor>10 * log 2 (real i + 2)\<rfloor>),
                   entanglementPattern =
                     (if i mod 3 = 0 then Full else if i mod 2 = 0 then Circular else Linear),
                   gateSequence = gs\<rparr>;
          (ls, r2) = initializeQuantumLayersFrom (Suc i) n r1
      in (layer # ls, r2))"

definition initializeQuantumLayers :: "nat \<Rightarrow> rng \<Rightarrow> QuantumLayer list \<times> rng" where
  "initializeQuantumLayers n r = initializeQuantumLayersFrom 0 n r"

definition initializeHybridOptimizer :: "AIModel \<Rightarrow> HybridOptimizer" where
  "initializeHybridOptimizer m =
     \<lparr>classicalOptimizer = ''adam'',
      quantumOptimizer = ''quantum_natural_gradient'',
      learningRate = nmul (Num (1 / 1000)) (nexp (ndiv (nneg (Num (real (layers m)))) (Num 10))),
      momentum = Num (9 / 10),
      quantumNoiseThreshold = Num (1 / 100)\<rparr>"

text \<open>A register of \<open>n\<close> qubits: for each qubit one draw and the two slots
  \<open>cos \<theta>\<close>, \<open>sin \<theta>\<close>. \<open>registerStep\<close> is the callback of the \<open>forEach\<close> of
  \<open>initializeQuantumRegisters\<close>, on the pair of the index and the layer.\<close>

fun drawRegister :: "nat \<Rightarrow> rng \<Rightarrow> number list \<times> rng" where
  "drawRegister 0 r = ([], r)"
| "drawRegister (Suc n) r =
     (let (u, r1) = random r;
          theta = nmul u (Num pi);
          (reg, r2) = drawRegister n r1
      in (ncos theta # nsin theta # reg, r2))"

definition registerStep :: "nat \<times> QuantumLayer \<Rightarrow> QuantumAI \<times> rng \<Rightarrow> QuantumAI \<times> rng" where
  "registerStep il s =
     (case s of (t1, r1) \<Rightarrow>
        let (reg, r2) = drawRegister (layer_qubits (snd il)) r1
        in (t1\<lparr>quantumMemory := (quantumMemory t1)(fst il \<mapsto> reg)\<rparr>, r2))"

definition initializeQuantumRegisters :: "QuantumAI \<Rightarrow> rng \<Rightarrow> QuantumAI \<times> rng" where
  "initializeQuantumRegisters t r = fold registerStep (enumerate 0 (quantumLayers t)) (t, r)"

definition newQuantumAI :: "nat \<Rightarrow> rng \<Rightarrow> QuantumAI \<times> rng" where
  "newQuantumAI n r =
     (let m = \<lparr>mtype = Hybrid, parameters = calculateParameters n, layers = n,
               accuracy = Num 0, loss = Num 1\<rparr>;
          (ls, r1) = initializeQuantumLayers n r
      in initializeQuantumRegisters
           \<lparr>model = m, quantumLayers = ls, optimizer = initializeHybridOptimizer m,
            quantumMemory = Map.empty\<rparr> r1)"

definition applyQuantumGate ::
  "string \<Rightarrow> number \<Rightarrow> number \<Rightarrow> number \<Rightarrow> number \<times> number" where
  "applyQuantumGate gate re im err =
     (if gate = ''H'' then
        (nmul (ndiv (nadd re im) (nsqrt (Num 2))) (nsub (Num 1) err),
         nmul (ndiv (nsub re im) (nsqrt (Num 2))) (nsub (Num 1) err))
      else if gate = ''RX'' then
        (nsub (nmul re (ncos err)) (nmul im (nsin err)),
         nadd (nmul im (ncos err)) (nmul re (nsin err)))
      else (nmul re (nsub (Num 1) err), nmul im (nsub (Num 1) err)))"

text \<open>\<open>gateStep\<close> and \<open>trainLayer\<close> below are the callbacks of the \<open>forEach\<close> of
  \<open>simulateQuantumOperations\<close> and of \<open>trainEpoch\<close>, on the variables they update.
  \<open>applyToRegister\<close> is the inner loop of \<open>simulateQuantumOperations\<close> over the slot pairs. A register has
  an even length; in a last odd slot the missing partner reads \<open>undefined\<close>, which is
  \<open>NaN\<close> in the arithmetic, and the write beyond the register is dropped.\<close>

fun applyToRegister :: "string \<Rightarrow> number \<Rightarrow> number list \<Rightarrow> number list" where
  "applyToRegister gate err (re # im # rest) =
     (let (re1, im1) = applyQuantumGate gate re im err
      in re1 # im1 # applyToRegister gate err rest)"
| "applyToRegister gate err [re] = [fst (applyQuantumGate gate re NaN err)]"
| "applyToRegister gate err [] = []"

definition gateStep ::
  "QuantumAI \<Rightarrow> string \<Rightarrow> number \<times> number list \<times> rng \<Rightarrow> number \<times> number list \<times> rng" where
  "gateStep t gate s =
     (case s of (loss1, reg, r1) \<Rightarrow>
        let (u, r2) = random r1;
            gateError = nmul u (quantumNoiseThreshold (optimizer t))
        in (nadd loss1 gateError, applyToRegister gate gateError reg, r2))"

definition simulateQuantumOperations ::
  "QuantumAI \<Rightarrow> QuantumLayer \<Rightarrow> number list \<Rightarrow> rng \<Rightarrow> number \<times> number list \<times> rng" where
  "simulateQuantumOperations t layer register r =
     fold (gateStep t) (gateSequence layer) (Num 0, register, r)"

definition applyQuantumNoiseReduction :: "QuantumAI \<Rightarrow> number list \<Rightarrow> nat \<Rightarrow> number list" where
  "applyQuantumNoiseReduction t register epoch =
     (let noiseReduction = nexp (ndiv (nneg (Num (real epoch))) (Num (real (layers (model t)))))
      in map (\<lambda>x. nmul x (nsub (Num 1)
                              (nmul (quantumNoiseThreshold (optimizer t)) noiseReduction)))
             register)"

definition trainLayer ::
  "nat \<Rightarrow> nat \<times> QuantumLayer \<Rightarrow> number \<times> QuantumAI \<times> rng \<Rightarrow> number \<times> QuantumAI \<times> rng" where
  "trainLayer epoch il s =
     (case s of (epochLoss, t1, r1) \<Rightarrow>
        (case quantumMemory t1 (fst il) of
           None \<Rightarrow> (epochLoss, t1, r1)
         | Some quantumRegister \<Rightarrow>
             (let (layerLoss, reg1, r2) =
                    simulateQuantumOperations t1 (snd il) quantumRegister r1;
                  reg2 = applyQuantumNoiseReduction t1 reg1 epoch
              in (nadd epochLoss layerLoss,
                  t1\<lparr>quantumMemory := (quantumMemory t1)(fst il \<mapsto> reg2)\<rparr>,
                  r2))))"

definition trainEpoch :: "nat \<Rightarrow> QuantumAI \<Rightarrow> rng \<Rightarrow> number \<times> QuantumAI \<times> rng" where
  "trainEpoch epoch t r =
     (let (epochLoss, t2, r2) =
            fold (trainLayer epoch) (enumerate 0 (quantumLayers t)) (Num 0, t, r)
      in (ndiv epochLoss (Num (real (length (quantumLayers t)))), t2, r2))"

definition updateModelMetrics :: "number \<Rightarrow> nat \<Rightarrow> QuantumAI \<Rightarrow> QuantumAI" where
  "updateModelMetrics epochLoss epoch t =
     (let m = model t;
          accuracyImprovement =
            nmul (nmul (nmul (nsub (Num 1) (accuracy m)) (Num (1 / 10)))
                       (nexp (nneg epochLoss)))
                 (nsub (Num 1) (ndiv (Num (real epoch)) (nmul (Num (real (layers m))) (Num 2))));
          acc = nmin (Num 1) (nadd (accuracy m) accuracyImprovement);
          l = nadd (nmul epochLoss
                         (nexp (ndiv (nneg (Num (real epoch))) (Num (real (layers m))))))
                   (quantumNoiseThreshold (optimizer t))
      in t\<lparr>model := m\<lparr>accuracy := acc, loss := l\<rparr>\<rparr>)"

text \<open>The loop of \<open>train\<close>: the epochs \<open>epoch\<close>, \<open>epoch + 1\<close>, ... in order.\<close>

fun trainFrom :: "nat \<Rightarrow> nat \<Rightarrow> QuantumAI \<Rightarrow> rng \<Rightarrow> QuantumAI \<times> rng" where
  "trainFrom epoch 0 t r = (t, r)"
| "trainFrom epoch (Suc n) t r =
     (let (epochLoss, t1, r1) = trainEpoch epoch t r
      in trainFrom (Suc epoch) n (updateModelMetrics epochLoss epoch t1) r1)"

definition train :: "nat \<Rightarrow> QuantumAI \<Rightarrow> rng \<Rightarrow> QuantumAI \<times> rng" where
  "train epochs t r = trainFrom 0 epochs t r"

definition getModelStats :: "QuantumAI \<Rightarrow> AIModel" where
  "getModelStats t = model t"

section \<open>Derived constants\<close>

text \<open>The factor by which one call of \<open>applyDecoherenceEffects\<close> multiplies the
  coherence, for the decoherence model that the constructor installs.\<close>

definition defaultDecoherenceModel :: DecoherenceModel where
  "defaultDecoherenceModel =
     \<lparr>T1 = Num (50 / 10 ^ 6), T2 = Num (70 / 10 ^ 6), environmentalNoise = Num (1 / 1000)\<rparr>"

definition decayFactor :: real where
  "decayFactor =
     exp (- (1 / 10 ^ 9) / (70 / 10 ^ 6)) *
     (1 - exp (- (662607015 / 10 ^ 42 * 10 ^ 9) / (1380649 / 10 ^ 29 * (15 / 1000))))"

text \<open>A qubit scalar between -1 and 1, and a finite number that is not negative.\<close>

definition unit_scalar :: "number \<Rightarrow> bool" where
  "unit_scalar q = (case q of Num a \<Rightarrow> - 1 \<le> a \<and> a \<le> 1 | _ \<Rightarrow> False)"

fun nonneg :: "number \<Rightarrow> bool" where
  "nonneg (Num a) = (0 \<le> a)"
| "nonneg _ = False"

text \<open>A processor with the given qubit scalars, as the constructor leaves the other
  fields before its initialisation steps.\<close>

definition processorWith :: "number list \<Rightarrow> QuantumProcessor" where
  "processorWith qs =
     \<lparr>state = \<lparr>qubits = qs, superposition = False, entanglement = Num 0, coherence = Num 1\<rparr>,
      decoherenceModel = defaultDecoherenceModel\<rparr>"


text \<open>Auxiliary terms for the simplified inverse: the zero entry, the entry that
  \<open>inverseMatrix\<close> writes at diagonal slot \<open>i\<close>, and a diagonal matrix.\<close>

definition zeroC :: Complex where
  "zeroC = \<lparr>creal = Num 0, cimag = Num 0\<rparr>"

definition diagInverse :: "Complex list list \<Rightarrow> nat \<Rightarrow> Complex" where
  "diagInverse m i = \<lparr>creal = ndiv (Num 1) (creal (m ! i ! i)), cimag = Num 0\<rparr>"

text \<open>The specification's wording of the natural gradient step: entry \<open>i\<close> is
  \<open>p[i] - 0.01 * g[i] / (F[i][i].real + 1e-5)\<close>.\<close>

definition naturalGradient_spec ::
  "number list \<Rightarrow> Complex list list \<Rightarrow> number list \<Rightarrow> number list" where
  "naturalGradient_spec p F g =
     map (\<lambda>i. nsub (p ! i)
                  (ndiv (nmul (Num (1 / 100)) (g ! i))
                        (nadd (creal (F ! i ! i)) (Num (1 / 10 ^ 5)))))
         [0 ..< length p]"

text \<open>The matrix with \<open>d i\<close> at the diagonal slots below \<open>k\<close> and zero elsewhere.\<close>

definition diagMatrix :: "nat \<Rightarrow> nat \<Rightarrow> (nat \<Rightarrow> Complex) \<Rightarrow> Complex list list" where
  "diagMatrix n k d =
     map (\<lambda>i. map (\<lambda>j. if i = j \<and> i < k then d i else zeroC) [0 ..< n]) [0 ..< n]"




text \<open>The fields of a trainer that training does not write.\<close>

definition sameSetup :: "QuantumAI \<Rightarrow> QuantumAI \<Rightarrow> bool" where
  "sameSetup t t' =
     (model t' = model t \<and> optimizer t' = optimizer t \<and> quantumLayers t' = quantumLayers t)"

text \<open>The accuracy after \<open>n\<close> more epochs, starting with epoch number \<open>epoch\<close> at accuracy
  \<open>a\<close>, when every epoch loss is zero.\<close>

fun accuracyAfter :: "nat \<Rightarrow> nat \<Rightarrow> nat \<Rightarrow> real \<Rightarrow> real" where
  "accuracyAfter L epoch 0 a = a"
| "accuracyAfter L epoch (Suc n) a =
     accuracyAfter L (Suc epoch) n
       (min 1 (a + (1 - a) * (1 / 10) * (1 - real epoch / (real L * 2))))"

text \<open>Imaginary-time evolution on complex numbers. A vector or matrix of finite entries
  is the image under \<open>cnum\<close> of one over the complex numbers.\<close>

definition cnum :: "complex \<Rightarrow> Complex" where
  "cnum z = \<lparr>creal = Num (Re z), cimag = Num (Im z)\<rparr>"

definition nanC :: Complex where
  "nanC = \<lparr>creal = NaN, cimag = NaN\<rparr>"

definition normSq :: "complex list \<Rightarrow> real" where
  "normSq v = (\<Sum>z\<leftarrow>v. Re z * Re z + Im z * Im z)"

text \<open>What one step of the source computes before it normalises: component \<open>i\<close> is the
  sum over \<open>j\<close> of \<open>H[i][j] * state[j] * dt\<close>.\<close>

definition productStep :: "complex list list \<Rightarrow> complex list \<Rightarrow> real \<Rightarrow> complex list" where
  "productStep M v dt =
     map (\<lambda>i. \<Sum>j<length v. M ! i ! j * v ! j * of_real dt) [0 ..< length v]"

text \<open>The steps of the source on complex numbers; \<open>None\<close> once a product vector is zero,
  where the division by the zero norm gives \<open>NaN\<close>.\<close>

fun productEvolution ::
  "complex list list \<Rightarrow> real \<Rightarrow> nat \<Rightarrow> complex list \<Rightarrow> complex list option" where
  "productEvolution M dt 0 v = Some v"
| "productEvolution M dt (Suc k) v =
     (let w = productStep M v dt
      in if normSq w = 0 then None
         else productEvolution M dt k (map (\<lambda>z. z / of_real (sqrt (normSq w))) w))"

text \<open>The specification's wording of the step, a first-order Euler update
  \<open>state[i] += \<Sum>j H[i][j] * state[j] * dt\<close> followed by the division by the norm.\<close>

definition eulerStep_spec :: "complex list list \<Rightarrow> complex list \<Rightarrow> real \<Rightarrow> complex list" where
  "eulerStep_spec M v dt =
     map (\<lambda>i. v ! i + (\<Sum>j<length v. M ! i ! j * v ! j * of_real dt)) [0 ..< length v]"

definition normalize_spec :: "complex list \<Rightarrow> complex list" where
  "normalize_spec v = map (\<lambda>z. z / of_real (sqrt (normSq v))) v"

fun eulerEvolution_spec ::
  "complex list list \<Rightarrow> real \<Rightarrow> nat \<Rightarrow> complex list \<Rightarrow> complex list" where
  "eulerEvolution_spec M dt 0 v = v"
| "eulerEvolution_spec M dt (Suc k) v =
     eulerEvolution_spec M dt k (normalize_spec (eulerStep_spec M v dt))"

definition imaginaryTimeEvolution_spec ::
  "complex list list \<Rightarrow> complex list \<Rightarrow> real \<Rightarrow> nat \<Rightarrow> complex list" where
  "imaginaryTimeEvolution_spec M v T K = eulerEvolution_spec M (T / real K) K v"

text \<open>A processor with the constructor's decoherence model whose coherence and qubit
  scalars lie within [0,1].\<close>

definition withinBounds :: "QuantumProcessor \<Rightarrow> bool" where
  "withinBounds p =
     (decoherenceModel p = defaultDecoherenceModel \<and> in01 (coherence (state p)) \<and>
      list_all in01 (qubits (state p)))"

section \<open>Properties\<close>

lemma nneg_nneg [simp]: "nneg (nneg a) = a"
  by (cases a) simp_all

subsection \<open>Construction of a processor\<close>

lemma decayFactor_pos: "0 < decayFactor"
  unfolding decayFactor_def by (intro mult_pos_pos) simp_all

lemma decayFactor_less_1: "decayFactor < 1"
proof -
  have a: "exp (- (1 / 10 ^ 9) / (70 / 10 ^ 6)) < (1::real)" by simp
  have b: "0 < exp (- (662607015 / 10 ^ 42 * 10 ^ 9) / (1380649 / 10 ^ 29 * (15 / 1000)) :: real)"
    by simp
  have c: "exp (- (662607015 / 10 ^ 42 * 10 ^ 9) / (1380649 / 10 ^ 29 * (15 / 1000)) :: real) < 1"
    by simp
  show ?thesis unfolding decayFactor_def using a b c
    by (smt (verit) mult_less_cancel_right2 exp_gt_zero)
qed

lemma applyDecoherenceEffects_coherence:
  "decoherenceModel p = defaultDecoherenceModel \<Longrightarrow> coherence (state p) = Num c \<Longrightarrow>
   coherence (state (applyDecoherenceEffects p)) = Num (c * decayFactor)"
  by (simp add: applyDecoherenceEffects_def defaultDecoherenceModel_def decayFactor_def
      planckConstant_def boltzmannConstant_def temperature_def nsub_def Let_def)

lemma applyDecoherenceEffects_frame:
  "qubits (state (applyDecoherenceEffects p)) = qubits (state p)"
  "superposition (state (applyDecoherenceEffects p)) = superposition (state p)"
  "entanglement (state (applyDecoherenceEffects p)) = entanglement (state p)"
  "decoherenceModel (applyDecoherenceEffects p) = decoherenceModel p"
  by (simp_all add: applyDecoherenceEffects_def Let_def)

lemma calibrateQuantumRegisters_frame:
  "coherence (state (fst (calibrateQuantumRegisters p r))) = coherence (state p)"
  "entanglement (state (fst (calibrateQuantumRegisters p r))) = entanglement (state p)"
  "superposition (state (fst (calibrateQuantumRegisters p r))) = superposition (state p)"
  "decoherenceModel (fst (calibrateQuantumRegisters p r)) = decoherenceModel p"
  by (simp_all add: calibrateQuantumRegisters_def split: prod.splits)

lemma applySurfaceCode_frame:
  "coherence (state (applySurfaceCode i p)) = coherence (state p)"
  "entanglement (state (applySurfaceCode i p)) = entanglement (state p)"
  "superposition (state (applySurfaceCode i p)) = superposition (state p)"
  "decoherenceModel (applySurfaceCode i p) = decoherenceModel p"
  by (simp_all add: applySurfaceCode_def Let_def)

lemma errorCorrectionLoop_frame:
  "coherence (state (errorCorrectionLoop i p)) = coherence (state p) \<and>
   entanglement (state (errorCorrectionLoop i p)) = entanglement (state p) \<and>
   superposition (state (errorCorrectionLoop i p)) = superposition (state p) \<and>
   decoherenceModel (errorCorrectionLoop i p) = decoherenceModel p"
proof (induction i p rule: errorCorrectionLoop.induct)
  case (1 i p)
  show ?case
  proof (cases "i + 2 < length (qubits (state p))")
    case True
    with 1 show ?thesis
      by (subst (1 2 3 4) errorCorrectionLoop.simps) (simp add: applySurfaceCode_frame)
  next
    case False
    then show ?thesis by (subst (1 2 3 4) errorCorrectionLoop.simps) simp
  qed
qed

lemma initializeErrorCorrection_frame:
  "coherence (state (initializeErrorCorrection p)) = coherence (state p)"
  "entanglement (state (initializeErrorCorrection p)) = entanglement (state p)"
  "superposition (state (initializeErrorCorrection p)) = superposition (state p)"
  "decoherenceModel (initializeErrorCorrection p) = decoherenceModel p"
  by (simp_all add: initializeErrorCorrection_def errorCorrectionLoop_frame)

lemma initializeQuantumSystem_frame:
  "coherence (state (fst (initializeQuantumSystem p r))) =
     coherence (state (applyDecoherenceEffects p))"
  "entanglement (state (fst (initializeQuantumSystem p r))) = entanglement (state p)"
  "superposition (state (fst (initializeQuantumSystem p r))) = superposition (state p)"
  "decoherenceModel (fst (initializeQuantumSystem p r)) = decoherenceModel p"
proof -
  obtain p2 r2 where c: "calibrateQuantumRegisters (applyDecoherenceEffects p) r = (p2, r2)"
    by (cases "calibrateQuantumRegisters (applyDecoherenceEffects p) r")
  have e: "fst (initializeQuantumSystem p r) = initializeErrorCorrection p2"
    by (simp add: initializeQuantumSystem_def Let_def c)
  have p2: "p2 = fst (calibrateQuantumRegisters (applyDecoherenceEffects p) r)"
    by (simp add: c)
  show "coherence (state (fst (initializeQuantumSystem p r))) =
          coherence (state (applyDecoherenceEffects p))"
    by (simp add: e initializeErrorCorrection_frame p2 calibrateQuantumRegisters_frame)
  show "entanglement (state (fst (initializeQuantumSystem p r))) = entanglement (state p)"
    by (simp add: e initializeErrorCorrection_frame p2 calibrateQuantumRegisters_frame
        applyDecoherenceEffects_frame)
  show "superposition (state (fst (initializeQuantumSystem p r))) = superposition (state p)"
    by (simp add: e initializeErrorCorrection_frame p2 calibrateQuantumRegisters_frame
        applyDecoherenceEffects_frame)
  show "decoherenceModel (fst (initializeQuantumSystem p r)) = decoherenceModel p"
    by (simp add: e initializeErrorCorrection_frame p2 calibrateQuantumRegisters_frame
        applyDecoherenceEffects_frame)
qed

lemma newQuantumProcessor_coherence:
  "coherence (state (fst (newQuantumProcessor n r))) = Num decayFactor"
proof -
  let ?p0 = "\<lparr>state = \<lparr>qubits = replicate n (Num 0), superposition = False,
                         entanglement = Num 0, coherence = Num 1\<rparr>,
               decoherenceModel = defaultDecoherenceModel\<rparr>"
  have "coherence (state (applyDecoherenceEffects ?p0)) = Num (1 * decayFactor)"
    by (rule applyDecoherenceEffects_coherence) simp_all
  then show ?thesis
    by (simp add: newQuantumProcessor_def initializeQuantumSystem_frame
        defaultDecoherenceModel_def)
qed

lemma newQuantumProcessor_fields:
  "entanglement (state (fst (newQuantumProcessor n r))) = Num 0"
  "superposition (state (fst (newQuantumProcessor n r))) = False"
  "decoherenceModel (fst (newQuantumProcessor n r)) = defaultDecoherenceModel"
  by (simp_all add: newQuantumProcessor_def initializeQuantumSystem_frame
      defaultDecoherenceModel_def)

lemma calibrateMap_length: "length (fst (calibrateMap p idx qs r)) = length qs"
proof (induction qs arbitrary: idx r)
  case Nil
  show ?case by simp
next
  case (Cons q qs)
  obtain w r1 where w: "calculateWaveFunction p idx r = (w, r1)"
    by (cases "calculateWaveFunction p idx r")
  obtain vs r2 where v: "calibrateMap p (Suc idx) qs r1 = (vs, r2)"
    by (cases "calibrateMap p (Suc idx) qs r1")
  have "length vs = length qs"
    using Cons.IH [of "Suc idx" r1] by (simp add: v)
  then show ?case by (simp add: w v Let_def)
qed

lemma applySurfaceCode_length:
  "length (qubits (state (applySurfaceCode i p))) = length (qubits (state p))"
  by (simp add: applySurfaceCode_def Let_def)

lemma errorCorrectionLoop_length:
  "length (qubits (state (errorCorrectionLoop i p))) = length (qubits (state p))"
proof (induction i p rule: errorCorrectionLoop.induct)
  case (1 i p)
  show ?case
  proof (cases "i + 2 < length (qubits (state p))")
    case True
    with 1 show ?thesis
      by (subst errorCorrectionLoop.simps) (simp add: applySurfaceCode_length)
  next
    case False
    then show ?thesis by (subst errorCorrectionLoop.simps) simp
  qed
qed

lemma calibrateQuantumRegisters_length:
  "length (qubits (state (fst (calibrateQuantumRegisters p r)))) = length (qubits (state p))"
proof -
  obtain qs r1 where c: "calibrateMap p 0 (qubits (state p)) r = (qs, r1)"
    by (cases "calibrateMap p 0 (qubits (state p)) r")
  have "length qs = length (qubits (state p))"
    using calibrateMap_length [of p 0 "qubits (state p)" r] by (simp add: c)
  then show ?thesis by (simp add: calibrateQuantumRegisters_def c)
qed

lemma initializeQuantumSystem_length:
  "length (qubits (state (fst (initializeQuantumSystem p r)))) = length (qubits (state p))"
proof -
  obtain p2 r2 where c: "calibrateQuantumRegisters (applyDecoherenceEffects p) r = (p2, r2)"
    by (cases "calibrateQuantumRegisters (applyDecoherenceEffects p) r")
  have "length (qubits (state p2)) = length (qubits (state p))"
    using calibrateQuantumRegisters_length [of "applyDecoherenceEffects p" r]
    by (simp add: c applyDecoherenceEffects_frame)
  then show ?thesis
    by (simp add: initializeQuantumSystem_def Let_def c initializeErrorCorrection_def
        errorCorrectionLoop_length)
qed

lemma newQuantumProcessor_length:
  "length (qubits (state (fst (newQuantumProcessor n r)))) = n"
  by (simp add: newQuantumProcessor_def initializeQuantumSystem_length)

text \<open>
  Claim C1, as the code has it. For every qubit count \<open>n \<ge> 1\<close> and every sequence of
  random draws, the processor that the constructor returns has entanglement 0, and
  its coherence is not 1: the constructor runs \<open>applyDecoherenceEffects\<close> once, so the
  coherence is the initial 1 times the decay factor
  \<open>exp(-1ns / T2) * (1 - exp(-quantumEnergy / thermalEnergy))\<close>, which lies strictly
  between 0 and 1.
\<close>

theorem fresh_processor_state:
  assumes "1 \<le> n"
  shows "coherence (state (fst (newQuantumProcessor n r))) = Num decayFactor \<and>
         0 < decayFactor \<and> decayFactor < 1 \<and>
         entanglement (state (fst (newQuantumProcessor n r))) = Num 0"
  by (simp add: newQuantumProcessor_coherence newQuantumProcessor_fields
      decayFactor_pos decayFactor_less_1)

theorem fresh_processor_state_witness:
  "(1::nat) \<le> 4 \<and>
   coherence (state (fst (newQuantumProcessor 4 (sconst 0)))) = Num decayFactor \<and>
   entanglement (state (fst (newQuantumProcessor 4 (sconst 0)))) = Num 0"
  using fresh_processor_state [of 4 "sconst 0"] by simp

text \<open>The coherence of a fresh one-qubit processor is not 1.\<close>

theorem fresh_coherence_not_one:
  "coherence (state (fst (newQuantumProcessor 1 (sconst 0)))) \<noteq> Num 1"
  using decayFactor_less_1 by (simp add: newQuantumProcessor_coherence)

subsection \<open>Teleportation corrections\<close>

lemma pauliX_pauliX: "pauliX (pauliX q) = q"
  by (cases q) (simp add: pauliX_def)

lemma pauliZ_pauliZ: "pauliZ (pauliZ q) = q"
  by (cases q) (simp add: pauliZ_def)

text \<open>
  Claim C3, as the code has it. For every qubit value \<open>q\<close> and measurement bits
  \<open>m1\<close>, \<open>m2\<close> in \<open>{0, 1}\<close>, applying the correction step twice returns \<open>q\<close> unless both
  bits are 1; with both bits 1 the step is the swap followed by the negation of the
  imaginary part, and applying it twice returns \<open>q\<close> with both parts negated.
\<close>

theorem teleportation_corrections_twice:
  assumes "m1 \<in> {0, 1}" and "m2 \<in> {0, 1}"
  shows "applyTeleportationCorrections (applyTeleportationCorrections q (m1, m2)) (m1, m2) =
           (if m1 = 1 \<and> m2 = 1 then \<lparr>creal = nneg (creal q), cimag = nneg (cimag q)\<rparr> else q)"
  using assms
  by (cases q) (auto simp: applyTeleportationCorrections_def pauliX_def pauliZ_def Let_def)

theorem teleportation_corrections_twice_witness:
  "(0::nat) \<in> {0, 1} \<and> (1::nat) \<in> {0, 1} \<and>
   applyTeleportationCorrections
     (applyTeleportationCorrections \<lparr>creal = Num 3, cimag = Num 4\<rparr> (0, 1)) (0, 1) =
   \<lparr>creal = Num 3, cimag = Num 4\<rparr>"
  using teleportation_corrections_twice [of 0 1 "\<lparr>creal = Num 3, cimag = Num 4\<rparr>"] by simp

text \<open>With both bits 1, two corrections turn the qubit \<open>(1, 0)\<close> into \<open>(-1, 0)\<close>.\<close>

theorem teleportation_not_self_inverse:
  "applyTeleportationCorrections
     (applyTeleportationCorrections \<lparr>creal = Num 1, cimag = Num 0\<rparr> (1, 1)) (1, 1) \<noteq>
   \<lparr>creal = Num 1, cimag = Num 0\<rparr>"
  by (simp add: applyTeleportationCorrections_def pauliX_def pauliZ_def Let_def)

subsection \<open>Gate validation and dispatch\<close>

text \<open>
  Claim C6. \<open>applyGate\<close> throws exactly when the target is not below the qubit count, or
  a control is present and not below the qubit count; the error is then the
  invalid-target or the invalid-control error, and the processor (its qubit scalars,
  superposition flag, entanglement and coherence) and the random source are as they
  were before the call.
\<close>

theorem applyGate_invalid_qubit:
  "(fst (applyGate gate p r) \<noteq> None) =
     (target gate \<ge> length (qubits (state p)) \<or>
      (\<exists>c. control gate = Some c \<and> c \<ge> length (qubits (state p)))) \<and>
   (\<forall>e. fst (applyGate gate p r) = Some e \<longrightarrow>
      (e = InvalidTargetQubit (target gate) \<or>
       Some e = map_option InvalidControlQubit (control gate)) \<and>
      fst (snd (applyGate gate p r)) = p \<and> snd (snd (applyGate gate p r)) = r)"
  by (auto simp: applyGate_def validateGateOperation_def Let_def
           split: option.splits prod.splits if_splits)

theorem applyGate_invalid_qubit_witness:
  "fst (applyGate \<lparr>gtype = GX, target = 1, control = Some 7, angle = None\<rparr>
          (fst (newQuantumProcessor 4 (sconst 0))) (sconst 0)) =
     Some (InvalidControlQubit 7) \<and>
   fst (snd (applyGate \<lparr>gtype = GX, target = 1, control = Some 7, angle = None\<rparr>
               (fst (newQuantumProcessor 4 (sconst 0))) (sconst 0))) =
     fst (newQuantumProcessor 4 (sconst 0))"
proof -
  let ?g = "\<lparr>gtype = GX, target = 1, control = Some 7, angle = None\<rparr>"
  let ?p = "fst (newQuantumProcessor 4 (sconst 0))"
  have n: "length (qubits (state ?p)) = 4"
    by (simp add: newQuantumProcessor_length)
  have f: "fst (applyGate ?g ?p (sconst 0)) = Some (InvalidControlQubit 7)"
    by (simp add: applyGate_def validateGateOperation_def n)
  show ?thesis
    using applyGate_invalid_qubit [of ?g ?p "sconst 0"] f by simp
qed

text \<open>
  Claim C10. For a gate of kind Y, Z, RX, RY, RZ, T or S whose target, and whose
  control when present, is below the qubit count, \<open>applyGate\<close> returns without an error
  and leaves the processor and the random source as they were: the dispatch table has
  no entry for the kind, so neither the decoherence step nor the recomputation of the
  entanglement runs.
\<close>

theorem undispatched_gate_is_noop:
  assumes "gtype gate \<in> {GY, GZ, GRX, GRY, GRZ, GT, GS}"
    and "target gate < length (qubits (state p))"
    and "\<forall>c. control gate = Some c \<longrightarrow> c < length (qubits (state p))"
  shows "applyGate gate p r = (None, p, r)"
proof -
  have v: "validateGateOperation gate p = None"
    using assms(2,3) by (auto simp: validateGateOperation_def split: option.splits)
  have d: "gateOperations (gtype gate) = None"
    using assms(1) by (auto simp: gateOperations_def)
  show ?thesis by (simp add: applyGate_def v d)
qed

theorem undispatched_gate_is_noop_witness:
  "applyGate \<lparr>gtype = GRZ, target = 2, control = Some 0, angle = Some (Num 1)\<rparr>
     (fst (newQuantumProcessor 4 (sconst 0))) (sconst 0) =
   (None, fst (newQuantumProcessor 4 (sconst 0)), sconst 0)"
proof -
  have n: "length (qubits (state (fst (newQuantumProcessor 4 (sconst 0))))) = 4"
    by (simp add: newQuantumProcessor_length)
  show ?thesis
    by (rule undispatched_gate_is_noop) (simp_all add: n)
qed

subsection \<open>The global entanglement\<close>

lemma pairTerm_nonneg:
  assumes "unit_scalar qi" and "unit_scalar qj"
  shows "nonneg (pairTerm qi qj)"
proof -
  obtain a where a: "qi = Num a" "- 1 \<le> a" "a \<le> 1"
    using assms(1) by (cases qi) (simp_all add: unit_scalar_def)
  obtain b where b: "qj = Num b" "- 1 \<le> b" "b \<le> 1"
    using assms(2) by (cases qj) (simp_all add: unit_scalar_def)
  have "a\<^sup>2 \<le> 1" using a(2,3) by (simp add: abs_square_le_1 abs_le_iff)
  then have "a * a \<le> 1" by (simp add: power2_eq_square)
  moreover have "b\<^sup>2 \<le> 1" using b(2,3) by (simp add: abs_square_le_1 abs_le_iff)
  then have "b * b \<le> 1" by (simp add: power2_eq_square)
  ultimately have "0 \<le> (1 - a * a) * (1 - b * b)" by simp
  then show ?thesis
    by (simp add: pairTerm_def a(1) b(1) npow2_def nsub_def)
qed

lemma nadd_nonneg: "nonneg x \<Longrightarrow> nonneg y \<Longrightarrow> nonneg (nadd x y)"
  by (cases x; cases y) simp_all

lemma inner_fold_nonneg:
  assumes "nonneg acc" and "unit_scalar qi" and "\<forall>j \<in> set js. unit_scalar (qs ! j)"
  shows "nonneg (fold (\<lambda>j acc. nadd acc (pairTerm qi (qs ! j))) js acc)"
  using assms
  by (induction js arbitrary: acc) (simp_all add: nadd_nonneg pairTerm_nonneg)

lemma outer_fold_nonneg:
  assumes "nonneg acc" and "\<forall>i \<in> set is. i < length qs" and "\<forall>q \<in> set qs. unit_scalar q"
  shows "nonneg (fold (\<lambda>i acc. fold (\<lambda>j acc. nadd acc (pairTerm (qs ! i) (qs ! j)))
                              [i + 1 ..< length qs] acc) is acc)"
  using assms
proof (induction "is" arbitrary: acc)
  case Nil
  then show ?case by simp
next
  case (Cons i "is")
  have "nonneg (fold (\<lambda>j acc. nadd acc (pairTerm (qs ! i) (qs ! j))) [i + 1 ..< length qs] acc)"
    using Cons.prems by (intro inner_fold_nonneg) auto
  then show ?case using Cons by simp
qed

lemma clamp_in01:
  assumes "nonneg g" and "0 < d"
  shows "in01 (nmin (Num 1) (ndiv g (Num d)))"
  using assms by (cases g) simp_all

text \<open>For two or more qubit scalars, each a real number between -1 and 1, the
  entanglement that \<open>updateSystemEntanglement\<close> stores lies within [0,1]; so it does for
  a processor that is within bounds.\<close>

lemma updateSystemEntanglement_in01:
  assumes "2 \<le> length (qubits (state p))"
    and "\<forall>q \<in> set (qubits (state p)). unit_scalar q"
  shows "in01 (entanglement (state (updateSystemEntanglement p)))"
proof -
  let ?qs = "qubits (state p)"
  let ?n = "length ?qs"
  let ?g = "fold (\<lambda>i acc. fold (\<lambda>j acc. nadd acc (pairTerm (?qs ! i) (?qs ! j)))
                              [i + 1 ..< ?n] acc) [0 ..< ?n - 1] (Num 0)"
  have g: "nonneg ?g"
    using assms(2) by (intro outer_fold_nonneg) auto
  have "0 < real ?n" and "0 < real ?n - 1"
    using assms(1) by auto
  then have pairs: "0 < real ?n * (real ?n - 1) / 2"
    by simp
  have "entanglement (state (updateSystemEntanglement p)) =
          nmin (Num 1) (ndiv ?g (Num (real ?n * (real ?n - 1) / 2)))"
    by (simp add: updateSystemEntanglement_def Let_def)
  then show ?thesis
    using clamp_in01 [OF g pairs] by simp
qed

lemma withinBounds_entanglement:
  assumes "withinBounds p" and "2 \<le> length (qubits (state p))"
  shows "in01 (entanglement (state (updateSystemEntanglement p)))"
proof -
  have "unit_scalar q" if "in01 q" for q
    using that by (cases q) (simp_all add: unit_scalar_def)
  then have "\<forall>q \<in> set (qubits (state p)). unit_scalar q"
    using assms(1) by (simp add: withinBounds_def list_all_iff)
  then show ?thesis
    by (rule updateSystemEntanglement_in01 [OF assms(2)])
qed

text \<open>With one qubit there is no pair: the sum is zero, the number of pairs is zero, and
  the quotient \<open>0 / 0\<close> is \<open>NaN\<close>, which \<open>Math.min(1, ...)\<close> lets through. Every gate
  that \<open>applyGate\<close> dispatches ends with \<open>updateSystemEntanglement\<close>.\<close>

lemma updateSystemEntanglement_one_qubit:
  assumes "length (qubits (state p)) = 1"
  shows "entanglement (state (updateSystemEntanglement p)) = NaN"
  using assms by (simp add: updateSystemEntanglement_def Let_def inf_of_def)

lemma gate_length:
  "length (qubits (state (fst (hadamardGate tgt p r)))) = length (qubits (state p))"
  "length (qubits (state (fst (pauliXGate tgt p r)))) = length (qubits (state p))"
  "length (qubits (state (fst (cnotGate tgt ctl p r)))) = length (qubits (state p))"
  by (simp_all add: hadamardGate_def pauliXGate_def cnotGate_def updateEntanglementMetric_def
      Let_def case_prod_beta split: option.splits)

lemma applyGate_one_qubit:
  assumes "length (qubits (state p)) = 1" and "validateGateOperation gate p = None"
    and "gateOperations (gtype gate) = Some operation"
  shows "entanglement (state (fst (snd (applyGate gate p r)))) = NaN"
proof -
  have "length (qubits (state (fst (operation (target gate) (control gate) p r)))) = 1"
    using assms(1,3)
    by (cases "gtype gate") (auto simp: gateOperations_def gate_length)
  then have "length (qubits (state (applyDecoherenceEffects
               (fst (operation (target gate) (control gate) p r))))) = 1"
    by (simp add: applyDecoherenceEffects_frame)
  then show ?thesis
    by (simp add: applyGate_def assms(2,3) Let_def case_prod_beta
        updateSystemEntanglement_one_qubit)
qed

lemma applyGate_returns:
  assumes "validateGateOperation gate p = None"
  shows "fst (applyGate gate p r) = None"
  using assms by (simp add: applyGate_def Let_def case_prod_beta split: option.splits)

lemma measureProcessor_entanglement:
  "entanglement (result_state (fst (measureProcessor p r))) = entanglement (state p)"
  by (simp add: measureProcessor_def Let_def case_prod_beta applyDecoherenceEffects_def)

text \<open>
  Claim C5. The stored entanglement is not within [0,1] for every vector of qubit
  scalars: on a processor constructed with one qubit, for every outcome of the random
  draws, an \<open>X\<close> gate on qubit 0 returns normally and leaves the entanglement \<open>NaN\<close>, and
  a following \<open>measure\<close> returns that value in its state. (By \<open>applyGate_one_qubit\<close> the
  same holds for the gates \<open>H\<close> and \<open>CNOT\<close>.)
\<close>

theorem one_qubit_entanglement_nan:
  "fst (applyGate \<lparr>gtype = GX, target = 0, control = None, angle = None\<rparr>
          (fst (newQuantumProcessor 1 r)) r') = None \<and>
   entanglement (state (fst (snd
     (applyGate \<lparr>gtype = GX, target = 0, control = None, angle = None\<rparr>
        (fst (newQuantumProcessor 1 r)) r')))) = NaN \<and>
   entanglement (result_state (fst (measureProcessor (fst (snd
     (applyGate \<lparr>gtype = GX, target = 0, control = None, angle = None\<rparr>
        (fst (newQuantumProcessor 1 r)) r'))) r''))) = NaN"
proof -
  let ?p = "fst (newQuantumProcessor 1 r)"
  let ?g = "\<lparr>gtype = GX, target = 0, control = None, angle = None\<rparr>"
  have l: "length (qubits (state ?p)) = 1"
    by (simp add: newQuantumProcessor_length)
  have v: "validateGateOperation ?g ?p = None"
    using l by (auto simp: validateGateOperation_def)
  have e: "entanglement (state (fst (snd (applyGate ?g ?p r')))) = NaN"
    by (rule applyGate_one_qubit [OF l v]) (simp add: gateOperations_def)
  have "fst (applyGate ?g ?p r') = None"
    by (rule applyGate_returns [OF v])
  then show ?thesis
    using e by (simp only: measureProcessor_entanglement simp_thms)
qed

subsection \<open>Measurement\<close>








lemma applyDecoherenceEffects_in01:
  assumes "decoherenceModel p = defaultDecoherenceModel" and "in01 (coherence (state p))"
  shows "in01 (coherence (state (applyDecoherenceEffects p)))"
proof -
  obtain c where c: "coherence (state p) = Num c" "0 \<le> c" "c \<le> 1"
    using assms(2) by (cases "coherence (state p)") simp_all
  have "0 \<le> c * decayFactor" "c * decayFactor \<le> 1"
    using c(2,3) decayFactor_pos decayFactor_less_1
    by (simp_all add: mult_le_one)
  then show ?thesis
    by (simp add: applyDecoherenceEffects_coherence [OF assms(1) c(1)])
qed












lemma updateSystemEntanglement_frame:
  "coherence (state (updateSystemEntanglement p)) = coherence (state p)"
  "qubits (state (updateSystemEntanglement p)) = qubits (state p)"
  "superposition (state (updateSystemEntanglement p)) = superposition (state p)"
  "decoherenceModel (updateSystemEntanglement p) = decoherenceModel p"
  by (simp_all add: updateSystemEntanglement_def Let_def)




subsection \<open>States that stay within bounds\<close>

text \<open>A fresh processor is within bounds, and so is the processor after any call of
  \<open>applyGate\<close> with a gate other than \<open>H\<close>, whether the call throws or not.\<close>

lemma noise_bounds:
  assumes "0 \<le> (x::real)" and "x \<le> 1"
  shows "0 \<le> 1 - 1 / 1000 * (1 - x)" and "1 - 1 / 1000 * (1 - x) \<le> 1"
    and "0 \<le> 1 - (1 - x) * (1 / 1000)" and "1 - (1 - x) * (1 / 1000) \<le> 1"
    and "0 \<le> (1 - x) * (1 / 1000)" and "(1 - x) * (1 / 1000) \<le> 1"
  using assms by simp_all

lemma waveFunction_probability:
  assumes "coherence (state p) = Num c" and "0 \<le> c" and "c \<le> 1"
  shows "probability (fst (calculateWaveFunction p idx r)) = Num (1 - c * c)"
proof -
  have "c * c \<le> 1" using assms(2,3) by (simp add: mult_le_one)
  then show ?thesis
    by (simp add: calculateWaveFunction_def assms(1) npow2_def nsub_def random_def Let_def)
qed


lemma list_all_update:
  "list_all P xs \<Longrightarrow> P a \<Longrightarrow> list_all P (xs[k := a])"
  by (induction xs arbitrary: k) (auto split: nat.splits)





lemma pauliXGate_withinBounds:
  assumes "withinBounds p"
  shows "withinBounds (fst (pauliXGate tgt p r))"
proof -
  obtain c where c: "coherence (state p) = Num c" "0 \<le> c" "c \<le> 1"
    using assms by (cases "coherence (state p)") (simp_all add: withinBounds_def)
  have cc: "0 \<le> c * c" "c * c \<le> 1" using c(2,3) by (simp_all add: mult_le_one)
  obtain w r1 where w: "calculateWaveFunction p tgt r = (w, r1)"
    by (cases "calculateWaveFunction p tgt r")
  have pr: "probability w = Num (1 - c * c)"
    using waveFunction_probability [OF c, of tgt r] by (simp add: w)
  have m: "environmentalNoise (decoherenceModel p) = Num (1 / 1000)"
    using assms by (simp add: withinBounds_def defaultDecoherenceModel_def)
  have v1: "in01 (nsub (Num 1) (nmul (probability w) (Num (1 / 1000))))"
    and v0: "in01 (nadd (Num 0) (nmul (probability w) (Num (1 / 1000))))"
    using noise_bounds(3-6) [OF cc] by (simp_all only: pr nsub_def nmul.simps nneg.simps
        nadd.simps in01.simps add_0 diff_conv_add_uminus [symmetric] simp_thms)
  define v where "v =
    (if (case elemAt (qubits (state p)) tgt of Some q \<Rightarrow> nseq q (Num 0) | None \<Rightarrow> False)
     then nsub (Num 1) (nmul (probability w) (Num (1 / 1000)))
     else nadd (Num 0) (nmul (probability w) (Num (1 / 1000))))"
  have iv: "in01 v"
    using v0 v1 by (simp add: v_def)
  have "fst (pauliXGate tgt p r) =
          p\<lparr>state := (state p)\<lparr>qubits := (qubits (state p))[tgt := v]\<rparr>\<rparr>"
    by (simp add: pauliXGate_def w m v_def Let_def)
  then show ?thesis
    using assms iv by (simp add: withinBounds_def list_all_update)
qed

lemma updateEntanglementMetric_withinBounds:
  "withinBounds (updateEntanglementMetric c tgt p) = withinBounds p"
  by (simp add: updateEntanglementMetric_def withinBounds_def Let_def)

lemma cnotGate_withinBounds:
  assumes "withinBounds p"
  shows "withinBounds (fst (cnotGate tgt ctl p r))"
proof (cases ctl)
  case None
  then show ?thesis using assms by (simp add: cnotGate_def)
next
  case (Some c)
  show ?thesis
    using assms pauliXGate_withinBounds [OF assms, of tgt r]
    by (simp add: cnotGate_def Some Let_def case_prod_beta updateEntanglementMetric_withinBounds)
qed

lemma step_withinBounds:
  assumes "withinBounds p"
  shows "withinBounds (updateSystemEntanglement (applyDecoherenceEffects p))"
  using assms applyDecoherenceEffects_in01 [of p]
  by (simp add: withinBounds_def updateSystemEntanglement_frame applyDecoherenceEffects_frame)

lemma applyGate_withinBounds:
  assumes "withinBounds p" and "gtype gate \<noteq> GH"
  shows "withinBounds (fst (snd (applyGate gate p r)))"
proof (cases "validateGateOperation gate p")
  case (Some e)
  then show ?thesis using assms(1) by (simp add: applyGate_def)
next
  case None
  show ?thesis
  proof (cases "gtype gate")
    case GX
    then show ?thesis
      using step_withinBounds [OF pauliXGate_withinBounds [OF assms(1), of "target gate" r]]
      by (simp add: applyGate_def None gateOperations_def Let_def case_prod_beta)
  next
    case GCNOT
    then show ?thesis
      using step_withinBounds [OF cnotGate_withinBounds [OF assms(1), of "target gate" "control gate" r]]
      by (simp add: applyGate_def None gateOperations_def Let_def case_prod_beta)
  qed (use assms in \<open>simp_all add: applyGate_def None gateOperations_def\<close>)
qed


subsection \<open>The quantum natural gradient step\<close>

lemma nadd_zero_left [simp]: "nadd (Num 0) x = x"
  by (cases x) simp_all

lemma nadd_zero_right [simp]: "nadd x (Num 0) = x"
  by (cases x) simp_all

lemma mapE_Inr:
  assumes "\<forall>x \<in> set xs. f x = Inr (g x)"
  shows "mapE f xs = Inr (map g xs)"
  using assms by (induction xs) simp_all

lemma diagMatrix_zero: "diagMatrix n 0 d = replicate n (replicate n zeroC)"
  by (simp add: diagMatrix_def map_replicate_trivial)

lemma inverseStep_diag:
  assumes "k < n" and "elemAt (m ! k) k = Some c"
    and "d k = \<lparr>creal = ndiv (Num 1) (creal c), cimag = Num 0\<rparr>"
  shows "inverseStep m k (Inr (diagMatrix n k d)) = Inr (diagMatrix n (Suc k) d)"
proof -
  have "(diagMatrix n k d)[k := (diagMatrix n k d ! k)[k := d k]] = diagMatrix n (Suc k) d"
    using assms(1)
    by (intro nth_equalityI)
       (auto simp: diagMatrix_def nth_list_update less_Suc_eq intro!: nth_equalityI)
  then show ?thesis
    by (simp add: inverseStep_def assms(2) assms(3) [symmetric])
qed

lemma inverseMatrix_fold:
  assumes "k \<le> length m" and "\<forall>i < length m. i < length (m ! i)"
  shows "fold (inverseStep m) [0 ..< k] (Inr (diagMatrix (length m) 0 (diagInverse m))) =
         Inr (diagMatrix (length m) k (diagInverse m))"
  using assms(1)
proof (induction k)
  case 0
  show ?case by simp
next
  case (Suc k)
  have k: "k < length m" using Suc.prems by simp
  have e: "elemAt (m ! k) k = Some (m ! k ! k)"
    using assms(2) k by (simp add: elemAt_def)
  have d: "diagInverse m k = \<lparr>creal = ndiv (Num 1) (creal (m ! k ! k)), cimag = Num 0\<rparr>"
    by (simp add: diagInverse_def)
  show ?case
    using Suc.IH k e d inverseStep_diag [of k "length m" m "m ! k ! k" "diagInverse m"]
    by simp
qed

lemma inverseMatrix_square:
  assumes "\<forall>row \<in> set m. length row = length m"
  shows "inverseMatrix m = Inr (diagMatrix (length m) (length m) (diagInverse m))"
proof -
  have "\<forall>i < length m. i < length (m ! i)"
    using assms by simp
  then have "fold (inverseStep m) [0 ..< length m]
               (Inr (diagMatrix (length m) 0 (diagInverse m))) =
             Inr (diagMatrix (length m) (length m) (diagInverse m))"
    by (intro inverseMatrix_fold) simp_all
  then show ?thesis
    by (simp add: inverseMatrix_def Let_def diagMatrix_zero zeroC_def)
qed

lemma naturalStep_diag:
  assumes "i < n" and "j < n" and "gradient ! j = Num gj"
  shows "naturalStep (diagMatrix n n d) i gradient j (Inr u) =
           Inr (if i = j then nadd u (nmul (creal (d i)) (Num gj)) else u)"
proof -
  have row: "elemAt (diagMatrix n n d) i = Some (diagMatrix n n d ! i)"
    using assms(1) by (simp add: elemAt_def diagMatrix_def)
  have ent: "elemAt (diagMatrix n n d ! i) j = Some (if i = j then d i else zeroC)"
    using assms(1,2) by (simp add: elemAt_def diagMatrix_def)
  show ?thesis
    by (simp add: naturalStep_def row ent assms(3) zeroC_def)
qed

lemma naturalUpdate_fold:
  assumes "i < n" and "k \<le> n" and "length g = n" and "\<forall>x \<in> set g. is_finite x"
  shows "fold (naturalStep (diagMatrix n n d) i g) [0 ..< k] (Inr (Num 0)) =
         Inr (if i < k then nmul (creal (d i)) (g ! i) else Num 0)"
  using assms(2)
proof (induction k)
  case 0
  show ?case by simp
next
  case (Suc k)
  have k: "k < n" using Suc.prems by simp
  have "is_finite (g ! k)"
    using assms(3,4) k by simp
  then obtain gk where gk: "g ! k = Num gk"
    by (cases "g ! k") simp_all
  have "fold (naturalStep (diagMatrix n n d) i g) [0 ..< Suc k] (Inr (Num 0)) =
          naturalStep (diagMatrix n n d) i g k
            (Inr (if i < k then nmul (creal (d i)) (g ! i) else Num 0))"
    using Suc.IH k by simp
  also have "\<dots> = Inr (if i < Suc k then nmul (creal (d i)) (g ! i) else Num 0)"
    using gk by (auto simp: naturalStep_diag [OF assms(1) k gk])
  finally show ?case .
qed

lemma learning_step:
  "nmul (Num (1 / 100)) (nmul (ndiv (Num 1) d) (Num g)) = ndiv (nmul (Num (1 / 100)) (Num g)) d"
  by (cases d) (auto simp: inf_of_def)

lemma regularize_shape:
  "length (regularizeQuantumFisher f) = length f"
  "i < length f \<Longrightarrow> length (regularizeQuantumFisher f ! i) = length (f ! i)"
  "i < length f \<Longrightarrow> j < length (f ! i) \<Longrightarrow>
     creal (regularizeQuantumFisher f ! i ! j) = nadd (creal (f ! i ! j)) (Num (1 / 10 ^ 5))"
  by (simp_all add: regularizeQuantumFisher_def)


text \<open>
  Claim C7, as the code has it. For a parameter vector \<open>p\<close>, a square Fisher matrix \<open>F\<close>
  and a gradient \<open>g\<close> of finite numbers, all of dimension \<open>n\<close>, \<open>quantumNaturalGradient\<close>
  returns the vector with
  entries \<open>p[i] - 0.01 * g[i] / (F[i][i].real + 1e-5)\<close>; and the simplified inverse of
  the regularized matrix has the reciprocal of the regularized diagonal real part on
  the diagonal and zero everywhere else. The arithmetic is that of the source: where
  the regularized diagonal entry is zero both sides are the same infinity or \<open>NaN\<close>.
\<close>

theorem natural_gradient_diagonal:
  assumes "length F = n" and "\<forall>row \<in> set F. length row = n"
    and "length p = n" and "length g = n" and "\<forall>x \<in> set g. is_finite x"
  shows "quantumNaturalGradient p F g =
           Inr (map (\<lambda>i. nsub (p ! i)
                             (ndiv (nmul (Num (1 / 100)) (g ! i))
                                   (nadd (creal (F ! i ! i)) (Num (1 / 10 ^ 5)))))
                    [0 ..< n]) \<and>
         inverseMatrix (regularizeQuantumFisher F) =
           Inr (map (\<lambda>i. map (\<lambda>j. if i = j
                                    then \<lparr>creal = ndiv (Num 1)
                                                     (nadd (creal (F ! i ! i)) (Num (1 / 10 ^ 5))),
                                          cimag = Num 0\<rparr>
                                    else \<lparr>creal = Num 0, cimag = Num 0\<rparr>) [0 ..< n])
                    [0 ..< n])"
proof -
  let ?R = "regularizeQuantumFisher F"
  let ?inv = "diagMatrix n n (diagInverse ?R)"
  have lenR: "length ?R = n"
    by (simp add: regularize_shape assms(1))
  have rowsR: "\<forall>row \<in> set ?R. length row = length ?R"
    using assms(1,2) by (auto simp: regularizeQuantumFisher_def)
  have diag: "creal (diagInverse ?R i) =
                ndiv (Num 1) (nadd (creal (F ! i ! i)) (Num (1 / 10 ^ 5)))"
             "cimag (diagInverse ?R i) = Num 0" if "i < n" for i
    using that assms(1,2) by (simp_all add: diagInverse_def regularize_shape)
  have inv: "inverseMatrix ?R = Inr ?inv"
    using inverseMatrix_square [OF rowsR] by (simp add: lenR)
  have upd: "naturalUpdate ?inv i g = Inr (nmul (creal (diagInverse ?R i)) (g ! i))"
    if "i < n" for i
    using naturalUpdate_fold [OF that le_refl assms(4,5), of "diagInverse ?R"] that
    by (simp add: naturalUpdate_def assms(4))
  have step: "(case naturalUpdate ?inv i g of
                 Inl e \<Rightarrow> Inl e
               | Inr update \<Rightarrow> Inr (nsub (p ! i) (nmul LEARNING_RATE update))) =
              Inr (nsub (p ! i) (ndiv (nmul (Num (1 / 100)) (g ! i))
                                      (nadd (creal (F ! i ! i)) (Num (1 / 10 ^ 5)))))"
    if "i < n" for i
  proof -
    have "is_finite (g ! i)" using assms(4,5) that by simp
    then obtain gi where gi: "g ! i = Num gi" by (cases "g ! i") simp_all
    have "nmul LEARNING_RATE (nmul (creal (diagInverse ?R i)) (g ! i)) =
            ndiv (nmul (Num (1 / 100)) (g ! i)) (nadd (creal (F ! i ! i)) (Num (1 / 10 ^ 5)))"
      unfolding LEARNING_RATE_def gi diag(1) [OF that] by (rule learning_step)
    then show ?thesis
      by (simp add: upd [OF that])
  qed
  have "quantumNaturalGradient p F g =
          mapE (\<lambda>(i, param).
                     case naturalUpdate ?inv i g of
                       Inl e \<Rightarrow> Inl e
                     | Inr update \<Rightarrow> Inr (nsub param (nmul LEARNING_RATE update)))
               (enumerate 0 p)"
    by (simp add: quantumNaturalGradient_def inv Let_def)
  also have "\<dots> = Inr (map (\<lambda>(i, param). nsub param
                             (ndiv (nmul (Num (1 / 100)) (g ! i))
                                   (nadd (creal (F ! i ! i)) (Num (1 / 10 ^ 5)))))
                         (enumerate 0 p))"
  proof (rule mapE_Inr, rule ballI)
    fix x assume x: "x \<in> set (enumerate 0 p)"
    obtain i param where ip: "x = (i, param)" by (cases x)
    have "i < n" "param = p ! i"
      using x assms(3) by (auto simp: ip in_set_enumerate_eq)
    then show "(case x of (i, param) \<Rightarrow>
                  case naturalUpdate ?inv i g of
                    Inl e \<Rightarrow> Inl e
                  | Inr update \<Rightarrow> Inr (nsub param (nmul LEARNING_RATE update))) =
               Inr (case x of (i, param) \<Rightarrow> nsub param
                             (ndiv (nmul (Num (1 / 100)) (g ! i))
                                   (nadd (creal (F ! i ! i)) (Num (1 / 10 ^ 5)))))"
      using step [of i] by (simp add: ip)
  qed
  also have "map (\<lambda>(i, param). nsub param
                             (ndiv (nmul (Num (1 / 100)) (g ! i))
                                   (nadd (creal (F ! i ! i)) (Num (1 / 10 ^ 5)))))
                 (enumerate 0 p) =
             map (\<lambda>i. nsub (p ! i)
                             (ndiv (nmul (Num (1 / 100)) (g ! i))
                                   (nadd (creal (F ! i ! i)) (Num (1 / 10 ^ 5)))))
                    [0 ..< n]"
    using assms(3) by (intro nth_equalityI) (simp_all add: nth_enumerate_eq)
  finally have main: "quantumNaturalGradient p F g =
           Inr (map (\<lambda>i. nsub (p ! i)
                             (ndiv (nmul (Num (1 / 100)) (g ! i))
                                   (nadd (creal (F ! i ! i)) (Num (1 / 10 ^ 5)))))
                    [0 ..< n])" .
  have "?inv = map (\<lambda>i. map (\<lambda>j. if i = j
                                    then \<lparr>creal = ndiv (Num 1)
                                                     (nadd (creal (F ! i ! i)) (Num (1 / 10 ^ 5))),
                                          cimag = Num 0\<rparr>
                                    else \<lparr>creal = Num 0, cimag = Num 0\<rparr>) [0 ..< n])
                    [0 ..< n]"
    unfolding diagMatrix_def
  proof (intro map_cong refl)
    fix i j assume "i \<in> set [0 ..< n]" "j \<in> set [0 ..< n]"
    then have i: "i < n" by simp
    have "diagInverse ?R i = \<lparr>creal = ndiv (Num 1)
                                 (nadd (creal (F ! i ! i)) (Num (1 / 10 ^ 5))),
                              cimag = Num 0\<rparr>"
      using diag [OF i] by (cases "diagInverse ?R i") simp
    then show "(if i = j \<and> i < n then diagInverse ?R i else zeroC) =
               (if i = j then \<lparr>creal = ndiv (Num 1)
                                 (nadd (creal (F ! i ! i)) (Num (1 / 10 ^ 5))),
                              cimag = Num 0\<rparr>
                else \<lparr>creal = Num 0, cimag = Num 0\<rparr>)"
      using i by (auto simp: zeroC_def)
  qed
  with inv main show ?thesis by simp
qed

theorem natural_gradient_diagonal_witness:
  "quantumNaturalGradient [Num 1, Num 2]
     [[\<lparr>creal = Num 3, cimag = Num 0\<rparr>, \<lparr>creal = Num 7, cimag = Num 1\<rparr>],
      [\<lparr>creal = Num 5, cimag = Num 2\<rparr>, \<lparr>creal = Num (- 1 / 10 ^ 5), cimag = Num 0\<rparr>]]
     [Num 4, Num 6] =
   Inr [Num (1 - (1 / 100) * 4 / (3 + 1 / 10 ^ 5)), NegInf]"
proof -
  let ?F = "[[\<lparr>creal = Num 3, cimag = Num 0\<rparr>, \<lparr>creal = Num 7, cimag = Num 1\<rparr>],
      [\<lparr>creal = Num 5, cimag = Num 2\<rparr>, \<lparr>creal = Num (- 1 / 10 ^ 5), cimag = Num 0\<rparr>]]"
  have u: "[0 ..< 2] = [0, Suc 0]" by (simp add: upt_rec)
  show ?thesis
    using natural_gradient_diagonal [of ?F 2 "[Num 1, Num 2]" "[Num 4, Num 6]"]
    by (simp add: u nsub_def inf_of_def)
qed

text \<open>A gradient entry that is not finite reaches every other entry of the result: the
  sum over \<open>j\<close> adds the off-diagonal term \<open>0 * Infinity\<close>, which is \<open>NaN\<close>. For the
  gradient \<open>[Infinity, 6]\<close> and the diagonal 3, 4 the source returns \<open>[-Infinity, NaN]\<close>,
  and the second entry of the specification's formula is finite.\<close>

theorem natural_gradient_infinite_entry:
  "quantumNaturalGradient [Num 0, Num 0]
     [[\<lparr>creal = Num 3, cimag = Num 0\<rparr>, \<lparr>creal = Num 0, cimag = Num 0\<rparr>],
      [\<lparr>creal = Num 0, cimag = Num 0\<rparr>, \<lparr>creal = Num 4, cimag = Num 0\<rparr>]]
     [PosInf, Num 6] = Inr [NegInf, NaN] \<and>
   naturalGradient_spec [Num 0, Num 0]
     [[\<lparr>creal = Num 3, cimag = Num 0\<rparr>, \<lparr>creal = Num 0, cimag = Num 0\<rparr>],
      [\<lparr>creal = Num 0, cimag = Num 0\<rparr>, \<lparr>creal = Num 4, cimag = Num 0\<rparr>]]
     [PosInf, Num 6] = [NegInf, Num (- ((1 / 100) * 6 / (4 + 1 / 10 ^ 5)))]"
  by (simp add: quantumNaturalGradient_def regularizeQuantumFisher_def inverseMatrix_def
      inverseStep_def naturalUpdate_def naturalStep_def elemAt_def LEARNING_RATE_def
      naturalGradient_spec_def nsub_def inf_of_def upt_rec Let_def)

subsection \<open>The QAOA loop\<close>


lemma is_finite_parity_sign [simp]: "is_finite (parity_sign idx)"
  by (simp add: parity_sign_def)























subsection \<open>Training and the reported accuracy\<close>

lemma sameSetup_refl [simp]: "sameSetup t t"
  by (simp add: sameSetup_def)

lemma sameSetup_trans: "sameSetup a b \<Longrightarrow> sameSetup b c \<Longrightarrow> sameSetup a c"
  by (simp add: sameSetup_def)

text \<open>In the lemmas below \<open>r\<close> is a constant stream of zero draws.\<close>

lemma gateStep_zero:
  assumes "quantumNoiseThreshold (optimizer t) = Num th" and "shd r = 0" and "stl r = r"
  shows "gateStep t gate (Num 0, reg, r) = (Num 0, applyToRegister gate (Num 0) reg, r)"
  by (simp add: gateStep_def random_def assms Let_def)

lemma gates_fold_zero:
  assumes "quantumNoiseThreshold (optimizer t) = Num th" and "shd r = 0" and "stl r = r"
  shows "\<exists>reg'. fold (gateStep t) gs (Num 0, reg, r) = (Num 0, reg', r)"
  by (induction gs arbitrary: reg) (simp_all add: gateStep_zero [OF assms])

lemma trainLayer_zero:
  assumes "quantumNoiseThreshold (optimizer t1) = Num th" and "shd r = 0" and "stl r = r"
  shows "\<exists>t'. trainLayer epoch il (Num 0, t1, r) = (Num 0, t', r) \<and> sameSetup t1 t'"
proof (cases "quantumMemory t1 (fst il)")
  case None
  then show ?thesis by (simp add: trainLayer_def)
next
  case (Some reg)
  obtain reg' where r: "simulateQuantumOperations t1 (snd il) reg r = (Num 0, reg', r)"
    using gates_fold_zero [OF assms] by (auto simp: simulateQuantumOperations_def)
  show ?thesis
    by (simp add: trainLayer_def Some r sameSetup_def Let_def)
qed

lemma layers_fold_zero:
  assumes "quantumNoiseThreshold (optimizer t1) = Num th" and "shd r = 0" and "stl r = r"
  shows "\<exists>t'. fold (trainLayer epoch) ils (Num 0, t1, r) = (Num 0, t', r) \<and> sameSetup t1 t'"
  using assms(1)
proof (induction ils arbitrary: t1)
  case Nil
  show ?case by simp
next
  case (Cons il ils)
  obtain t2 where t2: "trainLayer epoch il (Num 0, t1, r) = (Num 0, t2, r)" "sameSetup t1 t2"
    using trainLayer_zero [OF Cons.prems assms(2,3)] by blast
  have "quantumNoiseThreshold (optimizer t2) = Num th"
    using t2(2) Cons.prems by (simp add: sameSetup_def)
  then obtain t' where t': "fold (trainLayer epoch) ils (Num 0, t2, r) = (Num 0, t', r)"
    "sameSetup t2 t'"
    using Cons.IH by blast
  have "fold (trainLayer epoch) (il # ils) (Num 0, t1, r) = (Num 0, t', r)"
    by (simp add: t2(1) t'(1))
  moreover have "sameSetup t1 t'"
    by (rule sameSetup_trans [OF t2(2) t'(2)])
  ultimately show ?case by blast
qed

lemma trainEpoch_zero:
  assumes "quantumNoiseThreshold (optimizer t) = Num th" and "shd r = 0" and "stl r = r"
    and "quantumLayers t \<noteq> []"
  shows "\<exists>t'. trainEpoch epoch t r = (Num 0, t', r) \<and> sameSetup t t'"
proof -
  obtain t' where t': "fold (trainLayer epoch) (enumerate 0 (quantumLayers t)) (Num 0, t, r) =
                         (Num 0, t', r)" "sameSetup t t'"
    using layers_fold_zero [OF assms(1,2,3)] by blast
  have "real (length (quantumLayers t)) \<noteq> 0"
    using assms(4) by simp
  then show ?thesis
    using t' by (simp add: trainEpoch_def)
qed

lemma updateModelMetrics_zero:
  assumes "accuracy (model t) = Num a" and "layers (model t) = L" and "0 < L"
  shows "accuracy (model (updateModelMetrics (Num 0) epoch t)) =
           Num (min 1 (a + (1 - a) * (1 / 10) * (1 - real epoch / (real L * 2))))"
    and "layers (model (updateModelMetrics (Num 0) epoch t)) = L"
    and "optimizer (updateModelMetrics (Num 0) epoch t) = optimizer t"
    and "quantumLayers (updateModelMetrics (Num 0) epoch t) = quantumLayers t"
  using assms(3)
  by (simp_all add: updateModelMetrics_def assms(1,2) nsub_def Let_def)

lemma trainFrom_zero:
  assumes "quantumNoiseThreshold (optimizer t) = Num th" and "shd r = 0" and "stl r = r"
    and "quantumLayers t \<noteq> []" and "accuracy (model t) = Num a"
    and "layers (model t) = L" and "0 < L"
  shows "accuracy (model (fst (trainFrom epoch n t r))) = Num (accuracyAfter L epoch n a)"
  using assms(1,4,5,6)
proof (induction n arbitrary: epoch t a)
  case 0
  then show ?case by simp
next
  case (Suc n)
  obtain t1 where t1: "trainEpoch epoch t r = (Num 0, t1, r)" "sameSetup t t1"
    using trainEpoch_zero [OF Suc.prems(1) assms(2,3) Suc.prems(2)] by blast
  let ?t2 = "updateModelMetrics (Num 0) epoch t1"
  have a1: "accuracy (model t1) = Num a" and l1: "layers (model t1) = L"
    using t1(2) Suc.prems(3,4) by (simp_all add: sameSetup_def)
  have "accuracy (model (fst (trainFrom (Suc epoch) n ?t2 r))) =
          Num (accuracyAfter L (Suc epoch) n
                 (min 1 (a + (1 - a) * (1 / 10) * (1 - real epoch / (real L * 2)))))"
  proof (rule Suc.IH)
    show "quantumNoiseThreshold (optimizer ?t2) = Num th"
      using t1(2) Suc.prems(1)
      by (simp add: updateModelMetrics_zero(3) [OF a1 l1 assms(7)] sameSetup_def)
    show "quantumLayers ?t2 \<noteq> []"
      using t1(2) Suc.prems(2)
      by (simp add: updateModelMetrics_zero(4) [OF a1 l1 assms(7)] sameSetup_def)
    show "accuracy (model ?t2) =
            Num (min 1 (a + (1 - a) * (1 / 10) * (1 - real epoch / (real L * 2))))"
      by (rule updateModelMetrics_zero(1) [OF a1 l1 assms(7)])
    show "layers (model ?t2) = L"
      by (rule updateModelMetrics_zero(2) [OF a1 l1 assms(7)])
  qed
  then show ?case
    by (simp add: t1(1))
qed



lemma drawGates_const: "stl r = r \<Longrightarrow> snd (drawGates k r) = r"
  by (induction k) (simp_all add: random_def Let_def case_prod_beta)

lemma initializeQuantumLayersFrom_length:
  "length (fst (initializeQuantumLayersFrom i n r)) = n"
  by (induction n arbitrary: i r) (simp_all add: Let_def case_prod_beta)

lemma initializeQuantumLayersFrom_const:
  "stl r = r \<Longrightarrow> snd (initializeQuantumLayersFrom i n r) = r"
  by (induction n arbitrary: i)
     (simp_all add: generateQuantumGateSequence_def drawGates_const Let_def case_prod_beta)

lemma drawRegister_const: "stl r = r \<Longrightarrow> snd (drawRegister k r) = r"
  by (induction k) (simp_all add: random_def Let_def case_prod_beta)

lemma registers_fold:
  "sameSetup t (fst (fold registerStep ils (t, r)))"
  "stl r = r \<Longrightarrow> snd (fold registerStep ils (t, r)) = r"
proof -
  show "sameSetup t (fst (fold registerStep ils (t, r)))"
  proof (induction ils arbitrary: t r)
    case Nil
    show ?case by simp
  next
    case (Cons il ils)
    obtain t1 r1 where s: "registerStep il (t, r) = (t1, r1)"
      by (cases "registerStep il (t, r)")
    have "sameSetup t t1"
      using s by (auto simp: registerStep_def sameSetup_def Let_def case_prod_beta)
    then show ?case
      using Cons.IH [of t1 r1] by (auto simp: s intro: sameSetup_trans)
  qed
  assume c: "stl r = r"
  show "snd (fold registerStep ils (t, r)) = r"
  proof (induction ils arbitrary: t)
    case Nil
    show ?case by simp
  next
    case (Cons il ils)
    have "snd (registerStep il (t, r)) = r"
      by (simp add: registerStep_def drawRegister_const [OF c] Let_def case_prod_beta)
    then obtain t1 where "registerStep il (t, r) = (t1, r)"
      by (cases "registerStep il (t, r)") simp
    then show ?case
      using Cons.IH [of t1] by simp
  qed
qed

lemma newQuantumAI_setup:
  "model (fst (newQuantumAI n r)) =
     \<lparr>mtype = Hybrid, parameters = calculateParameters n, layers = n,
      accuracy = Num 0, loss = Num 1\<rparr>"
  "quantumNoiseThreshold (optimizer (fst (newQuantumAI n r))) = Num (1 / 100)"
  "length (quantumLayers (fst (newQuantumAI n r))) = n"
proof -
  let ?m = "\<lparr>mtype = Hybrid, parameters = calculateParameters n, layers = n,
             accuracy = Num 0, loss = Num 1\<rparr>"
  let ?ls = "fst (initializeQuantumLayers n r)"
  let ?r1 = "snd (initializeQuantumLayers n r)"
  let ?t0 = "\<lparr>model = ?m, quantumLayers = ?ls, optimizer = initializeHybridOptimizer ?m,
              quantumMemory = Map.empty\<rparr>"
  have n: "newQuantumAI n r = fold registerStep (enumerate 0 ?ls) (?t0, ?r1)"
    by (simp add: newQuantumAI_def initializeQuantumRegisters_def Let_def case_prod_beta)
  have s: "sameSetup ?t0 (fst (newQuantumAI n r))"
    unfolding n by (rule registers_fold(1))
  show "model (fst (newQuantumAI n r)) = ?m"
    using s by (simp add: sameSetup_def)
  show "quantumNoiseThreshold (optimizer (fst (newQuantumAI n r))) = Num (1 / 100)"
    using s by (simp add: sameSetup_def initializeHybridOptimizer_def)
  show "length (quantumLayers (fst (newQuantumAI n r))) = n"
    using s by (simp add: sameSetup_def initializeQuantumLayers_def
        initializeQuantumLayersFrom_length)
qed

lemma newQuantumAI_const:
  assumes "stl r = r"
  shows "snd (newQuantumAI n r) = r"
proof -
  have "snd (initializeQuantumLayers n r) = r"
    by (simp add: initializeQuantumLayers_def initializeQuantumLayersFrom_const [OF assms])
  then show ?thesis
    by (simp add: newQuantumAI_def initializeQuantumRegisters_def Let_def case_prod_beta
        registers_fold(2) [OF assms])
qed

lemma accuracyAfter_six: "accuracyAfter 1 0 6 0 = - (13565375 / 10 ^ 8)"
  by (simp add: eval_nat_numeral)

text \<open>
  Claim C9 says that the accuracy reported by \<open>getModelStats()\<close> lies within [0,1] after
  any number of epochs. The code clamps the accuracy from above only, and the factor
  \<open>1 - epoch / (2 * layers)\<close> of the improvement is negative for epochs beyond twice the
  layer count. For a one-layer trainer and six epochs, with every random draw equal to
  0 (so every epoch loss is 0), the reported accuracy is -0.13565375.
\<close>

theorem accuracy_negative_after_six_epochs:
  "accuracy (getModelStats (fst (train 6 (fst (newQuantumAI 1 (sconst 0)))
                                        (snd (newQuantumAI 1 (sconst 0)))))) =
     Num (- (13565375 / 10 ^ 8)) \<and>
   \<not> in01 (accuracy (getModelStats (fst (train 6 (fst (newQuantumAI 1 (sconst 0)))
                                                  (snd (newQuantumAI 1 (sconst 0)))))))"
proof -
  let ?r = "sconst (0::real)"
  let ?t = "fst (newQuantumAI 1 ?r)"
  have c: "shd ?r = 0" "stl ?r = ?r" by simp_all
  have r: "snd (newQuantumAI 1 ?r) = ?r"
    by (rule newQuantumAI_const [OF c(2)])
  have l: "quantumLayers ?t \<noteq> []"
    using newQuantumAI_setup(3) [of 1 ?r] by auto
  have a: "accuracy (model ?t) = Num 0" and n: "layers (model ?t) = 1"
    by (simp_all add: newQuantumAI_setup(1))
  have "accuracy (model (fst (trainFrom 0 6 ?t ?r))) = Num (accuracyAfter 1 0 6 0)"
    by (rule trainFrom_zero [OF newQuantumAI_setup(2) c l a n]) simp
  then show ?thesis
    by (simp only: getModelStats_def train_def r accuracyAfter_six) simp
qed

subsection \<open>Imaginary-time evolution\<close>

lemma cnum_simps [simp]: "creal (cnum z) = Num (Re z)" "cimag (cnum z) = Num (Im z)"
  by (simp_all add: cnum_def)

lemma entry_finite:
  assumes "i < length M" and "j < length (M ! i)"
  shows "entry (map (map cnum) M) i j = Some (cnum (M ! i ! j))"
  using assms by (simp add: entry_def elemAt_def)

lemma evolveTerm_finite:
  assumes "i < length M" and "j < length (M ! i)"
  shows "evolveTerm (map (map cnum) M) (Num dt) i (j, cnum x) (Inr (cnum a)) =
           Inr (cnum (a + M ! i ! j * x * of_real dt))"
  by (simp add: evolveTerm_def entry_finite [OF assms] cnum_def nsub_def)

lemma evolve_fold_finite:
  assumes "i < length M" and "k + length xs \<le> length (M ! i)"
  shows "fold (evolveTerm (map (map cnum) M) (Num dt) i) (enumerate k (map cnum xs))
              (Inr (cnum a)) =
           Inr (cnum (a + (\<Sum>j<length xs. M ! i ! (k + j) * xs ! j * of_real dt)))"
  using assms(2)
proof (induction xs arbitrary: k a)
  case Nil
  show ?case by simp
next
  case (Cons x xs)
  have k: "k < length (M ! i)" using Cons.prems by simp
  have "fold (evolveTerm (map (map cnum) M) (Num dt) i) (enumerate k (map cnum (x # xs)))
              (Inr (cnum a)) =
        fold (evolveTerm (map (map cnum) M) (Num dt) i) (enumerate (Suc k) (map cnum xs))
              (Inr (cnum (a + M ! i ! k * x * of_real dt)))"
    by (simp add: evolveTerm_finite [OF assms(1) k])
  also have "\<dots> = Inr (cnum (a + M ! i ! k * x * of_real dt +
                       (\<Sum>j<length xs. M ! i ! (Suc k + j) * xs ! j * of_real dt)))"
    using Cons.prems by (intro Cons.IH) simp
  also have "a + M ! i ! k * x * of_real dt +
               (\<Sum>j<length xs. M ! i ! (Suc k + j) * xs ! j * of_real dt) =
             a + (\<Sum>j<length (x # xs). M ! i ! (k + j) * (x # xs) ! j * of_real dt)"
    by (subst length_Cons, subst sum.lessThan_Suc_shift) simp
  finally show ?case .
qed

lemma evolveRow_finite:
  assumes "i < length M" and "length v \<le> length (M ! i)"
  shows "evolveRow (map cnum v) (map (map cnum) M) (Num dt) i =
           Inr (cnum (\<Sum>j<length v. M ! i ! j * v ! j * of_real dt))"
proof -
  have z: "\<lparr>creal = Num 0, cimag = Num 0\<rparr> = cnum 0"
    by (simp add: cnum_def)
  show ?thesis
    unfolding evolveRow_def z
    using evolve_fold_finite [OF assms(1), of 0 v dt 0] assms(2) by simp
qed

lemma evolveState_finite:
  assumes "length v \<le> length M" and "\<forall>i < length v. length v \<le> length (M ! i)"
  shows "evolveState (map cnum v) (map (map cnum) M) (Num dt) =
           Inr (map cnum (productStep M v dt))"
proof -
  have "mapE (evolveRow (map cnum v) (map (map cnum) M) (Num dt)) [0 ..< length v] =
          Inr (map (\<lambda>i. cnum (\<Sum>j<length v. M ! i ! j * v ! j * of_real dt)) [0 ..< length v])"
    using assms by (intro mapE_Inr) (simp add: evolveRow_finite)
  then show ?thesis
    by (simp add: evolveState_def productStep_def)
qed


lemma nan_absorbs [simp]:
  "nadd x NaN = NaN" "nmul x NaN = NaN" "ndiv x NaN = NaN" "nsub x NaN = NaN" "nsub NaN x = NaN"
  by (cases x; simp add: nsub_def)+

lemma norm_fold_finite:
  "fold (\<lambda>s acc. nadd (nadd acc (nmul (creal s) (creal s))) (nmul (cimag s) (cimag s)))
        (map cnum w) (Num a) = Num (a + normSq w)"
  by (induction w arbitrary: a) (simp_all add: normSq_def add.assoc)

lemma normSq_nonneg: "0 \<le> normSq w"
  unfolding normSq_def by (rule sum_list_nonneg) auto

lemma normSq_zero:
  assumes "normSq w = 0" and "z \<in> set w"
  shows "z = 0"
proof -
  have "\<forall>x \<in> set (map (\<lambda>z. Re z * Re z + Im z * Im z) w). x = 0"
    using assms(1) unfolding normSq_def
    by (subst (asm) sum_list_nonneg_eq_0_iff) auto
  then have "Re z * Re z + Im z * Im z = 0"
    using assms(2) by auto
  then have "Re z = 0 \<and> Im z = 0"
    by (simp add: sum_squares_eq_zero_iff flip: power2_eq_square)
  then show ?thesis by (simp add: complex_eq_iff)
qed

lemma normalizeState_finite:
  "normalizeState (map cnum w) =
     (if normSq w = 0 then replicate (length w) nanC
      else map cnum (map (\<lambda>z. z / of_real (sqrt (normSq w))) w))"
proof (cases "normSq w = 0")
  case True
  have "map (\<lambda>s. \<lparr>creal = ndiv (creal s) (Num 0), cimag = ndiv (cimag s) (Num 0)\<rparr>)
            (map cnum w) = replicate (length w) nanC"
  proof (intro nth_equalityI)
    show "length (map (\<lambda>s. \<lparr>creal = ndiv (creal s) (Num 0), cimag = ndiv (cimag s) (Num 0)\<rparr>)
            (map cnum w)) = length (replicate (length w) nanC)"
      by simp
  next
    fix i
    assume "i < length (map (\<lambda>s. \<lparr>creal = ndiv (creal s) (Num 0),
                                      cimag = ndiv (cimag s) (Num 0)\<rparr>) (map cnum w))"
    then have i: "i < length w" by simp
    then have "w ! i = 0" using normSq_zero [OF True] by simp
    then show "map (\<lambda>s. \<lparr>creal = ndiv (creal s) (Num 0), cimag = ndiv (cimag s) (Num 0)\<rparr>)
            (map cnum w) ! i = replicate (length w) nanC ! i"
      using i by (simp add: nanC_def inf_of_def)
  qed
  then show ?thesis
    using True by (simp add: normalizeState_def norm_fold_finite Let_def)
next
  case False
  then have pos: "0 < normSq w" using normSq_nonneg [of w] by simp
  then have r: "sqrt (normSq w) \<noteq> 0" by simp
  show ?thesis
    using False pos r
    by (simp add: normalizeState_def norm_fold_finite Let_def cnum_def)
qed

lemma evolveTerm_nan:
  assumes "entry H i j = Some h"
  shows "evolveTerm H dt i (j, nanC) (Inr a) = Inr nanC"
  by (simp add: evolveTerm_def assms nanC_def)

lemma evolve_fold_nan:
  assumes "\<forall>j < k + m. entry H i j \<noteq> None"
  shows "fold (evolveTerm H dt i) (enumerate k (replicate m nanC)) (Inr a) =
           Inr (if m = 0 then a else nanC)"
  using assms
proof (induction m arbitrary: k a)
  case 0
  show ?case by simp
next
  case (Suc m)
  have "k < k + Suc m" by simp
  with Suc.prems have "entry H i k \<noteq> None" by blast
  then obtain h where h: "entry H i k = Some h" by auto
  have "\<forall>j < Suc k + m. entry H i j \<noteq> None"
    using Suc.prems by simp
  from Suc.IH [OF this, of nanC] show ?case
    by (simp add: evolveTerm_nan [OF h])
qed

lemma evolveState_nan:
  assumes "\<forall>i < n. \<forall>j < n. entry H i j \<noteq> None"
  shows "evolveState (replicate n nanC) H dt = Inr (replicate n nanC)"
proof -
  have "mapE (evolveRow (replicate n nanC) H dt) [0 ..< n] = Inr (map (\<lambda>i. nanC) [0 ..< n])"
  proof (rule mapE_Inr, rule ballI)
    fix i assume "i \<in> set [0 ..< n]"
    then have i: "i < n" by simp
    then have "\<forall>j < 0 + n. entry H i j \<noteq> None" using assms by simp
    from evolve_fold_nan [OF this] i
    show "evolveRow (replicate n nanC) H dt i = Inr nanC"
      by (simp add: evolveRow_def)
  qed
  then show ?thesis
    by (simp add: evolveState_def map_replicate_trivial)
qed

lemma norm_fold_nan:
  "fold (\<lambda>s acc. nadd (nadd acc (nmul (creal s) (creal s))) (nmul (cimag s) (cimag s)))
        (replicate (Suc m) nanC) a = NaN"
  by (induction m arbitrary: a) (simp_all add: nanC_def)

lemma normalizeState_nan: "normalizeState (replicate n nanC) = replicate n nanC"
proof (cases n)
  case 0
  then show ?thesis by (simp add: normalizeState_def)
next
  case (Suc m)
  show ?thesis
    unfolding Suc normalizeState_def Let_def norm_fold_nan
    by (simp add: nanC_def)
qed

lemma evolutionLoop_nan:
  assumes "\<forall>i < n. \<forall>j < n. entry H i j \<noteq> None"
  shows "evolutionLoop H dt k (replicate n nanC) = Inr (replicate n nanC)"
  by (induction k) (simp_all add: evolveState_nan [OF assms] normalizeState_nan)

lemma productStep_length [simp]: "length (productStep M v dt) = length v"
  by (simp add: productStep_def)

lemma evolutionLoop_finite:
  assumes "length M = n" and "\<forall>row \<in> set M. length row = n" and "length v = n"
  shows "evolutionLoop (map (map cnum) M) (Num dt) k (map cnum v) =
           Inr (case productEvolution M dt k v of
                  Some u \<Rightarrow> map cnum u
                | None \<Rightarrow> replicate n nanC)"
  using assms(3)
proof (induction k arbitrary: v)
  case 0
  show ?case by simp
next
  case (Suc k)
  let ?w = "productStep M v dt"
  have ev: "evolveState (map cnum v) (map (map cnum) M) (Num dt) = Inr (map cnum ?w)"
    using assms(1,2) Suc.prems by (intro evolveState_finite) simp_all
  have ent: "\<forall>i < n. \<forall>j < n. entry (map (map cnum) M) i j \<noteq> None"
    using assms(1,2) by (simp add: entry_finite)
  show ?case
  proof (cases "normSq ?w = 0")
    case True
    have "evolutionLoop (map (map cnum) M) (Num dt) (Suc k) (map cnum v) =
            evolutionLoop (map (map cnum) M) (Num dt) k (replicate n nanC)"
      using True Suc.prems by (simp add: ev normalizeState_finite)
    then show ?thesis
      using True by (simp add: evolutionLoop_nan [OF ent] Let_def)
  next
    case False
    let ?u = "map (\<lambda>z. z / of_real (sqrt (normSq ?w))) ?w"
    have "evolutionLoop (map (map cnum) M) (Num dt) (Suc k) (map cnum v) =
            evolutionLoop (map (map cnum) M) (Num dt) k (map cnum ?u)"
      using False by (simp add: ev normalizeState_finite)
    also have "\<dots> = Inr (case productEvolution M dt k ?u of
                            Some u \<Rightarrow> map cnum u
                          | None \<Rightarrow> replicate n nanC)"
      using Suc.prems by (intro Suc.IH) simp
    finally show ?thesis
      using False by (simp add: Let_def)
  qed
qed

lemma imaginaryTimeEvolution_finite:
  assumes "1 \<le> K" and "length M = n" and "\<forall>row \<in> set M. length row = n" and "length v = n"
  shows "imaginaryTimeEvolution (map (map cnum) M) (map cnum v) (Num T) K =
           Inr (case productEvolution M (T / real K) K v of
                  Some u \<Rightarrow> map cnum u
                | None \<Rightarrow> replicate n nanC)"
proof -
  have "ndiv (Num T) (Num (real K)) = Num (T / real K)"
    using assms(1) by simp
  then show ?thesis
    by (simp add: imaginaryTimeEvolution_def Let_def evolutionLoop_finite [OF assms(2,3,4)])
qed

text \<open>In exact arithmetic the step size cancels in the normalisation: the result is the
  same for every positive evolution time.\<close>

lemma productStep_scale:
  "productStep M v dt = map (\<lambda>z. z * of_real dt) (productStep M v 1)"
  by (simp add: productStep_def sum_distrib_right)

lemma normSq_times: "normSq (map (\<lambda>z. z * of_real c) w) = c * c * normSq w"
  by (induction w) (simp_all add: normSq_def algebra_simps)

lemma productEvolution_time:
  assumes "0 < dt"
  shows "productEvolution M dt K v = productEvolution M 1 K v"
proof (induction K arbitrary: v)
  case 0
  show ?case by simp
next
  case (Suc K)
  let ?w = "productStep M v 1"
  have w: "productStep M v dt = map (\<lambda>z. z * of_real dt) ?w"
    by (rule productStep_scale)
  have n: "normSq (productStep M v dt) = dt * dt * normSq ?w"
    unfolding w by (rule normSq_times)
  have z: "normSq (productStep M v dt) = 0 \<longleftrightarrow> normSq ?w = 0"
    using assms by (simp add: n)
  have s: "sqrt (dt * dt * normSq ?w) = dt * sqrt (normSq ?w)"
    using assms by (simp add: real_sqrt_mult)
  have u: "map (\<lambda>z. z / of_real (sqrt (normSq (productStep M v dt)))) (productStep M v dt) =
           map (\<lambda>z. z / of_real (sqrt (normSq ?w))) ?w"
    unfolding n s unfolding w using assms by simp
  show ?case
    unfolding productEvolution.simps Let_def z u by (simp add: Suc.IH)
qed

lemma imaginaryTimeEvolution_time:
  assumes "1 \<le> K" and "length M = n" and "\<forall>row \<in> set M. length row = n" and "length v = n"
    and "0 < T" and "0 < T'"
  shows "imaginaryTimeEvolution (map (map cnum) M) (map cnum v) (Num T) K =
         imaginaryTimeEvolution (map (map cnum) M) (map cnum v) (Num T') K"
proof -
  have "0 < T / real K" and "0 < T' / real K"
    using assms(1,5,6) by simp_all
  then have "productEvolution M (T / real K) K v = productEvolution M (T' / real K) K v"
    using productEvolution_time [of "T / real K" M K v]
      productEvolution_time [of "T' / real K" M K v] by simp
  then show ?thesis
    by (simp only: imaginaryTimeEvolution_finite [OF assms(1,2,3,4)])
qed

lemma two_element_index: "{..<2::nat} = {0, 1}"
  by auto

lemma example_product:
  "productEvolution [[- 1, 0], [0, 0]] (1 / real 1) 1 [1, 1] = Some [- 1, 0]"
proof -
  have w: "productStep [[- 1, 0], [0, 0]] [1, 1] (1 / real 1) = [- 1, 0]"
    by (simp add: productStep_def two_element_index upt_rec)
  have n: "normSq [- 1, 0 :: complex] = 1"
    by (simp add: normSq_def)
  have "productEvolution [[- 1, 0], [0, 0]] (1 / real 1) (Suc 0) [1, 1] = Some [- 1, 0]"
    unfolding productEvolution.simps Let_def w n by simp
  then show ?thesis by simp
qed

lemma example_euler: "imaginaryTimeEvolution_spec [[- 1, 0], [0, 0]] [1, 1] 1 1 = [0, 1]"
proof -
  have w: "eulerStep_spec [[- 1, 0], [0, 0]] [1, 1] (1 / real 1) = [0, 1]"
    by (simp add: eulerStep_spec_def two_element_index upt_rec)
  have n: "normSq [0, 1 :: complex] = 1"
    by (simp add: normSq_def)
  have "eulerEvolution_spec [[- 1, 0], [0, 0]] (1 / real 1) (Suc 0) [1, 1] = [0, 1]"
    unfolding eulerEvolution_spec.simps w normalize_spec_def n by simp
  then show ?thesis by (simp add: imaginaryTimeEvolution_spec_def)
qed

lemma example_euler2:
  "imaginaryTimeEvolution_spec [[- 1, 0], [0, 0]] [1, 1] 2 1 =
     [- 1 / of_real (sqrt 2), 1 / of_real (sqrt 2)]"
proof -
  have w: "eulerStep_spec [[- 1, 0], [0, 0]] [1, 1] (2 / real 1) = [- 1, 1]"
    by (simp add: eulerStep_spec_def two_element_index upt_rec)
  have n: "normSq [- 1, 1 :: complex] = 2"
    by (simp add: normSq_def)
  have "eulerEvolution_spec [[- 1, 0], [0, 0]] (2 / real 1) (Suc 0) [1, 1] =
          [- 1 / of_real (sqrt 2), 1 / of_real (sqrt 2)]"
    unfolding eulerEvolution_spec.simps w normalize_spec_def n by simp
  then show ?thesis by (simp add: imaginaryTimeEvolution_spec_def)
qed

text \<open>
  Claim C2. The step of the source is not the Euler update of the specification: the
  \<open>reduce\<close> of \<open>evolveState\<close> starts from zero and not from \<open>state[i]\<close>. For
  \<open>H = [[-1, 0], [0, 0]]\<close>, the state \<open>[1, 1]\<close> and one step the source returns \<open>[-1, 0]\<close>
  for the evolution time 1 and for the evolution time 2, where the Euler update followed
  by the normalisation gives \<open>[0, 1]\<close> for the time 1 and \<open>[-1, 1] / sqrt 2\<close> for the
  time 2.
\<close>

theorem evolution_drops_previous_state:
  "imaginaryTimeEvolution (map (map cnum) [[- 1, 0], [0, 0]]) (map cnum [1, 1]) (Num 1) 1 =
     Inr (map cnum [- 1, 0]) \<and>
   imaginaryTimeEvolution (map (map cnum) [[- 1, 0], [0, 0]]) (map cnum [1, 1]) (Num 2) 1 =
     Inr (map cnum [- 1, 0]) \<and>
   imaginaryTimeEvolution_spec [[- 1, 0], [0, 0]] [1, 1] 1 1 = [0, 1] \<and>
   imaginaryTimeEvolution_spec [[- 1, 0], [0, 0]] [1, 1] 2 1 =
     [- 1 / of_real (sqrt 2), 1 / of_real (sqrt 2)]"
proof -
  have c: "imaginaryTimeEvolution (map (map cnum) [[- 1, 0], [0, 0]]) (map cnum [1, 1])
             (Num 1) 1 = Inr (map cnum [- 1, 0])"
    using imaginaryTimeEvolution_finite [of 1 "[[- 1, 0], [0, 0]]" 2 "[1, 1]" 1]
    unfolding example_product by simp
  have "imaginaryTimeEvolution (map (map cnum) [[- 1, 0], [0, 0]]) (map cnum [1, 1]) (Num 2) 1 =
        imaginaryTimeEvolution (map (map cnum) [[- 1, 0], [0, 0]]) (map cnum [1, 1]) (Num 1) 1"
    by (rule imaginaryTimeEvolution_time [of 1 _ 2]) simp_all
  then have c2: "imaginaryTimeEvolution (map (map cnum) [[- 1, 0], [0, 0]]) (map cnum [1, 1])
                   (Num 2) 1 = Inr (map cnum [- 1, 0])"
    by (simp only: c)
  show ?thesis
    by (intro conjI c c2 example_euler example_euler2)
qed

end
